theory Spec2Isabelle
  imports Main
begin

section \<open>Placeholder use case and service\<close>

text \<open>
  \<^verbatim>\<open>ExampleUseCase.execute\<close> returns the template literal
  \<^verbatim>\<open>`Processed: ${message}`\<close>. The promise it is wrapped in is settled at
  once with that value, so the model is the value.
\<close>

definition ExampleUseCase_execute :: "string \<Rightarrow> string" where
  "ExampleUseCase_execute message = ''Processed: '' @ message"

text \<open>
  \<^verbatim>\<open>ExampleService\<close> holds one \<^verbatim>\<open>ExampleUseCase\<close> built in its
  constructor; \<^verbatim>\<open>processMessage\<close> awaits \<^verbatim>\<open>this.useCase.execute(message)\<close>
  and returns what it gives.
\<close>

definition ExampleService_processMessage :: "string \<Rightarrow> string" where
  "ExampleService_processMessage message = ExampleUseCase_execute message"

section \<open>The page\<close>

text \<open>
  The renderer's controller (\<^verbatim>\<open>presentation/controllers/AppController.ts\<close>) works on
  the page through \<^verbatim>\<open>document.getElementById\<close>, \<^verbatim>\<open>appendChild\<close>,
  \<^verbatim>\<open>remove\<close> and the \<^verbatim>\<open>value\<close> property. An element is modelled by what
  these read: its \<^verbatim>\<open>id\<close> (empty when it has none), its \<^verbatim>\<open>value\<close>
  (\<open>None\<close> is JavaScript's \<^verbatim>\<open>undefined\<close>, the result on an element that is no
  form control) and its child elements. Strings are ASCII texts.
\<close>

datatype node = Node (node_id: string) (node_value: "string option") (node_children: "node list")

text \<open>
  The first element with the given id in document order (an element before its
  descendants, these before its later siblings), as \<^verbatim>\<open>getElementById\<close> finds it.
\<close>

fun find_by_id :: "string \<Rightarrow> node list \<Rightarrow> node option" where
  "find_by_id i [] = None"
| "find_by_id i (Node j v cs # ns) =
     (if j = i then Some (Node j v cs)
      else (case find_by_id i cs of
              Some n \<Rightarrow> Some n
            | None \<Rightarrow> find_by_id i ns))"

text \<open>
  \<^verbatim>\<open>el.remove()\<close> for the element that \<open>find_by_id\<close> returns: that element goes,
  with everything below it; the rest of the forest stays as it is.
\<close>

fun remove_first :: "string \<Rightarrow> node list \<Rightarrow> node list" where
  "remove_first i [] = []"
| "remove_first i (Node j v cs # ns) =
     (if j = i then ns
      else (case find_by_id i cs of
              Some n \<Rightarrow> Node j v (remove_first i cs) # ns
            | None \<Rightarrow> Node j v cs # remove_first i ns))"

text \<open>The id and value of every element of a forest, in document order.\<close>

fun labels :: "node list \<Rightarrow> (string \<times> string option) list" where
  "labels [] = []"
| "labels (Node j v cs # ns) = (j, v) # labels cs @ labels ns"

section \<open>The controller's state\<close>

text \<open>
  A collected configuration: the interface \<^verbatim>\<open>ScrapingConfig\<close> has the property
  \<^verbatim>\<open>platform: string\<close> and any further properties. The further properties are
  kept in the order of their creation, as a JavaScript object keeps its string keys; a
  value \<open>None\<close> is a property holding \<^verbatim>\<open>undefined\<close>.
\<close>

record ScrapingConfig =
  platform :: string
  props :: "(string \<times> string option) list"

text \<open>\<^verbatim>\<open>config.k = v\<close>: an existing property keeps its place, a new one goes last.\<close>

fun set_prop :: "string \<Rightarrow> string option \<Rightarrow> (string \<times> string option) list
    \<Rightarrow> (string \<times> string option) list" where
  "set_prop k v [] = [(k, v)]"
| "set_prop k v ((k', v') # ps) = (if k' = k then (k, v) # ps else (k', v') # set_prop k v ps)"

text \<open>
  The fields of the class together with the part of the page they point into.
  \<^item> \<open>configContainer\<close> is the element with id \<^verbatim>\<open>platform-config\<close> that the
    constructor looked up, given by its children; \<open>None\<close> when the page has no such
    element. \<open>page_before\<close> and \<open>page_after\<close> are the elements of the page that come
    before and after that element's subtree in document order. An ancestor of the
    container stands in \<open>page_before\<close> without the container below it, so the model
    takes it that no ancestor of the container has an id \<^verbatim>\<open>config-...\<close>: the
    controller removes no other elements.
  \<^item> \<open>platformCheckboxes\<close> is the node list of
    \<^verbatim>\<open>input[name="platforms"]\<close>: the \<^verbatim>\<open>value\<close> and \<^verbatim>\<open>checked\<close> of each.
  \<^item> \<open>resultsDiv\<close> is the element \<^verbatim>\<open>results\<close>, given by its
    \<^verbatim>\<open>style.display\<close>, and \<open>resultsContent\<close> the element
    \<^verbatim>\<open>results-content\<close>, given by the markup last assigned to its
    \<^verbatim>\<open>innerHTML\<close>; \<open>None\<close> when the element is missing. The markup is kept as
    text: the elements the browser builds from it are not entered into the forests.
  \<^item> \<open>timers\<close> are the callbacks handed to \<^verbatim>\<open>setTimeout\<close> that have not run
    yet: the delay in milliseconds and the \<^verbatim>\<open>configs\<close> the closure captured.
\<close>

record AppController =
  page_before :: "node list"
  configContainer :: "node list option"
  page_after :: "node list"
  platformCheckboxes :: "(string \<times> bool) list"
  resultsDiv :: "string option"
  resultsContent :: "string option"
  loadedConfigs :: "string set"
  timers :: "(nat \<times> ScrapingConfig list) list"

text \<open>What a handler does to the world outside the state, in the order it does it.\<close>

datatype effect =
    PreventDefault
  | Alert string
  | ConsoleError "string list"
  | Fetch string
  | ScrollIntoView
  | SetTimeout nat

text \<open>
  What the environment answers to \<^verbatim>\<open>fetch\<close> and to \<^verbatim>\<open>response.text()\<close>:
  the promise of \<^verbatim>\<open>fetch\<close> is rejected (with an error, given by its text), the
  response is not \<^verbatim>\<open>ok\<close>, the promise of \<^verbatim>\<open>text()\<close> is rejected, or the
  markup arrives; the markup is given by the elements that assigning it to
  \<^verbatim>\<open>innerHTML\<close> creates.
\<close>

datatype fetch_outcome =
    FetchRejected string
  | ResponseNotOk
  | TextRejected string
  | ResponseOk "node list"

definition document :: "AppController \<Rightarrow> node list" where
  "document s =
     page_before s
     @ (case configContainer s of
          None \<Rightarrow> []
        | Some cs \<Rightarrow> [Node ''platform-config'' None cs])
     @ page_after s"

definition getElementById :: "AppController \<Rightarrow> string \<Rightarrow> node option" where
  "getElementById s i = (if i = [] then None else find_by_id i (document s))"

text \<open>
  \<^verbatim>\<open>configDiv.remove()\<close> on the element \<open>getElementById s i\<close>, written on the three
  parts of the page. The controller calls it with ids \<^verbatim>\<open>config-...\<close> only, never
  with the container's own id.
\<close>

definition remove_node :: "string \<Rightarrow> AppController \<Rightarrow> AppController" where
  "remove_node i s =
     (case find_by_id i (page_before s) of
        Some n \<Rightarrow> s\<lparr>page_before := remove_first i (page_before s)\<rparr>
      | None \<Rightarrow>
          (case configContainer s of
             None \<Rightarrow> s\<lparr>page_after := remove_first i (page_after s)\<rparr>
           | Some cs \<Rightarrow>
               (case find_by_id i cs of
                  Some n \<Rightarrow> s\<lparr>configContainer := Some (remove_first i cs)\<rparr>
                | None \<Rightarrow> s\<lparr>page_after := remove_first i (page_after s)\<rparr>)))"

section \<open>Loading and removing a platform's form\<close>

definition config_id :: "string \<Rightarrow> string" where
  "config_id plat = ''config-'' @ plat"

definition view_url :: "string \<Rightarrow> string" where
  "view_url plat = ''./src/presentation/views/'' @ plat @ ''.html''"

text \<open>
  \<^verbatim>\<open>loadPlatformConfig\<close> is an async function: it tests the container and the set,
  calls \<^verbatim>\<open>fetch\<close> and is suspended at the \<^verbatim>\<open>await\<close>; other handlers can
  run before it goes on. The model has the two parts apart.

  The first part runs up to the call of \<^verbatim>\<open>fetch\<close>. It changes nothing; its result
  says whether the call is now suspended (then with the platform it carries).
\<close>

definition loadPlatformConfig_begin :: "AppController \<Rightarrow> string \<Rightarrow> effect list \<times> string option" where
  "loadPlatformConfig_begin s plat =
     (case configContainer s of
        None \<Rightarrow> ([], None)
      | Some cs \<Rightarrow>
          if plat \<in> loadedConfigs s then ([], None)
          else ([Fetch (view_url plat)], Some plat))"

text \<open>
  The second part is what a suspended call does when its awaits have settled, on the
  state of that moment and with what the environment answered. Between the await of
  \<^verbatim>\<open>fetch\<close> and that of \<^verbatim>\<open>response.text()\<close> the function reads and writes
  nothing of the state, so both answers are taken together. The \<^verbatim>\<open>catch\<close> covers
  both awaits and the statements after them: were the container missing at this point,
  \<^verbatim>\<open>appendChild\<close> would throw a TypeError into it. The set is not tested again.
\<close>

definition loadPlatformConfig_resume ::
    "AppController \<Rightarrow> string \<Rightarrow> fetch_outcome \<Rightarrow> effect list \<times> AppController" where
  "loadPlatformConfig_resume s plat answer =
     (case answer of
        FetchRejected e \<Rightarrow>
          ([ConsoleError [''Error loading platform config:'', e]], s)
      | ResponseNotOk \<Rightarrow>
          ([ConsoleError [''Configuration not available for '' @ plat]], s)
      | TextRejected e \<Rightarrow>
          ([ConsoleError [''Error loading platform config:'', e]], s)
      | ResponseOk html \<Rightarrow>
          (case configContainer s of
             None \<Rightarrow> ([ConsoleError [''Error loading platform config:'', ''TypeError'']], s)
           | Some cs \<Rightarrow>
               ([], s\<lparr>configContainer := Some (cs @ [Node (config_id plat) None html]),
                      loadedConfigs := insert plat (loadedConfigs s)\<rparr>)))"

text \<open>
  A call of \<^verbatim>\<open>loadPlatformConfig\<close> during which nothing else runs: the second part
  follows the first at once, on the same state.
\<close>

definition loadPlatformConfig ::
    "AppController \<Rightarrow> string \<Rightarrow> fetch_outcome \<Rightarrow> effect list \<times> AppController" where
  "loadPlatformConfig s plat answer =
     (case loadPlatformConfig_begin s plat of
        (effects, None) \<Rightarrow> (effects, s)
      | (effects, Some call) \<Rightarrow>
          (case loadPlatformConfig_resume s call answer of
             (effects', s') \<Rightarrow> (effects @ effects', s')))"

definition removePlatformConfig :: "AppController \<Rightarrow> string \<Rightarrow> AppController" where
  "removePlatformConfig s plat =
     (case getElementById s (config_id plat) of
        None \<Rightarrow> s
      | Some configDiv \<Rightarrow>
          (remove_node (config_id plat) s)
            \<lparr>loadedConfigs := loadedConfigs s - {plat}\<rparr>)"

text \<open>
  \<^verbatim>\<open>handlePlatformToggle(checkbox)\<close>: the checkbox is given by its \<^verbatim>\<open>value\<close>
  and \<^verbatim>\<open>checked\<close> at the time of the event. First the part up to the await, which
  hides the results and either removes the platform's form or begins to load it; its
  last component is the call of \<^verbatim>\<open>loadPlatformConfig\<close> it leaves suspended, if any.
\<close>

definition handlePlatformToggle_begin ::
    "AppController \<Rightarrow> string \<times> bool \<Rightarrow> effect list \<times> AppController \<times> string option" where
  "handlePlatformToggle_begin s checkbox =
     (let plat = fst checkbox;
          s1 = (case resultsDiv s of
                  None \<Rightarrow> s
                | Some d \<Rightarrow> s\<lparr>resultsDiv := Some ''none''\<rparr>)
      in if snd checkbox then
           (case loadPlatformConfig_begin s1 plat of (effects, call) \<Rightarrow> (effects, s1, call))
         else ([], removePlatformConfig s1 plat, None))"

text \<open>The handler when nothing else runs between its beginning and its end.\<close>

definition handlePlatformToggle ::
    "AppController \<Rightarrow> string \<times> bool \<Rightarrow> fetch_outcome \<Rightarrow> effect list \<times> AppController" where
  "handlePlatformToggle s checkbox answer =
     (let plat = fst checkbox;
          s1 = (case resultsDiv s of
                  None \<Rightarrow> s
                | Some d \<Rightarrow> s\<lparr>resultsDiv := Some ''none''\<rparr>)
      in if snd checkbox then loadPlatformConfig s1 plat answer
         else ([], removePlatformConfig s1 plat))"

section \<open>Events on the page\<close>

text \<open>
  The page while it runs: the controller's state and the calls of
  \<^verbatim>\<open>loadPlatformConfig\<close> that are suspended at their awaits, each given by its
  platform, the oldest first.

  Two kinds of events move it. \<open>Change k checked\<close>: the checkbox at position \<open>k\<close> of
  \<open>platformCheckboxes\<close> has been set to \<open>checked\<close> and its \<^verbatim>\<open>change\<close> listener
  runs the handler up to the await. \<open>Settled j answer\<close>: the awaits of the suspended
  call at position \<open>j\<close> have settled with \<open>answer\<close> and the call runs to its end. An
  event for a checkbox or a call that is not there does nothing.
\<close>

datatype event = Change nat bool | Settled nat fetch_outcome

definition step ::
    "AppController \<times> string list \<Rightarrow> event \<Rightarrow> effect list \<times> AppController \<times> string list" where
  "step c ev =
     (case c of (s, calls) \<Rightarrow>
        (case ev of
           Change k checked \<Rightarrow>
             if k < length (platformCheckboxes s) then
               (let val = fst (platformCheckboxes s ! k);
                    s0 = s\<lparr>platformCheckboxes := (platformCheckboxes s)[k := (val, checked)]\<rparr>
                in case handlePlatformToggle_begin s0 (val, checked) of
                     (effects, s1, None) \<Rightarrow> (effects, s1, calls)
                   | (effects, s1, Some call) \<Rightarrow> (effects, s1, calls @ [call]))
             else ([], s, calls)
         | Settled j answer \<Rightarrow>
             if j < length calls then
               (case loadPlatformConfig_resume s (calls ! j) answer of
                  (effects, s') \<Rightarrow> (effects, s', take j calls @ drop (Suc j) calls))
             else ([], s, calls)))"

fun run ::
    "AppController \<times> string list \<Rightarrow> event list \<Rightarrow> effect list \<times> AppController \<times> string list" where
  "run c [] = ([], c)"
| "run c (ev # evs) =
     (case step c ev of
        (effects, c') \<Rightarrow> (case run c' evs of (effects', c'') \<Rightarrow> (effects @ effects', c'')))"

text \<open>
  The runs in which every fetch is one step: each change of a checkbox is followed at
  once by the answer to the call it may have begun. \<open>toggles\<close> is the state after such
  a run that starts with no call suspended.
\<close>

definition atomic_events :: "((nat \<times> bool) \<times> fetch_outcome) list \<Rightarrow> event list" where
  "atomic_events evs =
     concat (map (\<lambda>((k, checked), answer). [Change k checked, Settled 0 answer]) evs)"

definition toggles ::
    "AppController \<Rightarrow> ((nat \<times> bool) \<times> fetch_outcome) list \<Rightarrow> AppController" where
  "toggles s evs = fst (snd (run (s, []) (atomic_events evs)))"


section \<open>Collecting the form's fields\<close>

text \<open>
  \<^verbatim>\<open>(document.getElementById(i) as HTMLInputElement)?.value\<close>: the cast does nothing
  at run time, and \<^verbatim>\<open>?.\<close> gives \<^verbatim>\<open>undefined\<close> when the element is missing.
\<close>

definition value_of :: "AppController \<Rightarrow> string \<Rightarrow> string option" where
  "value_of s i = (case getElementById s i of None \<Rightarrow> None | Some el \<Rightarrow> node_value el)"

text \<open>
  What \<^verbatim>\<open>!v\<close> tests on a string or \<^verbatim>\<open>undefined\<close>, and
  \<^verbatim>\<open>v || d\<close>.
\<close>

definition falsy :: "string option \<Rightarrow> bool" where
  "falsy v = (case v of None \<Rightarrow> True | Some x \<Rightarrow> x = [])"

definition or_default :: "string option \<Rightarrow> string \<Rightarrow> string option" where
  "or_default v d = (if falsy v then Some d else v)"

definition getSelectedPlatforms :: "AppController \<Rightarrow> string list" where
  "getSelectedPlatforms s = map fst (filter snd (platformCheckboxes s))"

definition getPlatformConfig :: "AppController \<Rightarrow> string \<Rightarrow> ScrapingConfig option" where
  "getPlatformConfig s plat =
     (let config = \<lparr>platform = plat, props = []\<rparr> in
      if plat = ''twitter'' then
        (let query = value_of s ''twitter-query'';
             count = value_of s ''twitter-count''
         in if falsy query then None
            else Some (config\<lparr>props :=
                   set_prop ''count'' (or_default count ''10'')
                     (set_prop ''query'' query (props config))\<rparr>))
      else if plat = ''instagram'' then
        (let username = value_of s ''instagram-username'';
             type = value_of s ''instagram-type''
         in if falsy username then None
            else Some (config\<lparr>props :=
                   set_prop ''type'' type
                     (set_prop ''username'' username (props config))\<rparr>))
      else if plat = ''facebook'' then
        (let page = value_of s ''facebook-page'';
             contentType = value_of s ''facebook-content''
         in if falsy page then None
            else Some (config\<lparr>props :=
                   set_prop ''contentType'' contentType
                     (set_prop ''page'' page (props config))\<rparr>))
      else if plat = ''reddit'' then
        (let subreddit = value_of s ''reddit-subreddit'';
             sort = value_of s ''reddit-sort'';
             limit = value_of s ''reddit-limit''
         in if falsy subreddit then None
            else Some (config\<lparr>props :=
                   set_prop ''limit'' (or_default limit ''25'')
                     (set_prop ''sort'' sort
                       (set_prop ''subreddit'' subreddit (props config)))\<rparr>))
      else None)"

fun getAllPlatformConfigs :: "AppController \<Rightarrow> string list \<Rightarrow> ScrapingConfig list" where
  "getAllPlatformConfigs s [] = []"
| "getAllPlatformConfigs s (plat # platforms) =
     (case getPlatformConfig s plat of
        None \<Rightarrow> getAllPlatformConfigs s platforms
      | Some config \<Rightarrow> config # getAllPlatformConfigs s platforms)"

section \<open>The results area\<close>

text \<open>\<^verbatim>\<open>xs.join(sep)\<close>.\<close>

fun join :: "string \<Rightarrow> string list \<Rightarrow> string" where
  "join sep [] = []"
| "join sep [x] = x"
| "join sep (x # y # ys) = x @ sep @ join sep (y # ys)"

text \<open>
  \<^verbatim>\<open>p.charAt(0).toUpperCase() + p.slice(1)\<close> on an ASCII string: the letters
  \<^verbatim>\<open>a\<close> to \<^verbatim>\<open>z\<close> have an upper case, every other character is its own.
\<close>

definition toUpperCase :: "char \<Rightarrow> char" where
  "toUpperCase c =
     (let n = (of_char c :: nat) in if 97 \<le> n \<and> n \<le> 122 then char_of (n - 32) else c)"

definition capitalize :: "string \<Rightarrow> string" where
  "capitalize p = map toUpperCase (take 1 p) @ drop 1 p"

text \<open>
  \<^verbatim>\<open>JSON.stringify(config, null, 2)\<close> for an object whose property values are
  strings or \<^verbatim>\<open>undefined\<close>. A string is quoted with the escapes of the ECMAScript
  operation QuoteJSONString; a property holding \<^verbatim>\<open>undefined\<close> is left out; each
  member is on a line of its own, indented by two spaces.
\<close>

definition hex_digit :: "nat \<Rightarrow> char" where
  "hex_digit n = ''0123456789abcdef'' ! (n mod 16)"

definition json_escape :: "char \<Rightarrow> string" where
  "json_escape c =
     (let n = (of_char c :: nat) in
      if n = 8 then [CHR 0x5C, CHR ''b'']
      else if n = 9 then [CHR 0x5C, CHR ''t'']
      else if n = 10 then [CHR 0x5C, CHR ''n'']
      else if n = 12 then [CHR 0x5C, CHR ''f'']
      else if n = 13 then [CHR 0x5C, CHR ''r'']
      else if n = 34 then [CHR 0x5C, CHR 0x22]
      else if n = 92 then [CHR 0x5C, CHR 0x5C]
      else if n < 32 then
        [CHR 0x5C, CHR ''u'', CHR ''0'', CHR ''0'', hex_digit (n div 16), hex_digit n]
      else [c])"

definition JSON_quote :: "string \<Rightarrow> string" where
  "JSON_quote x = [CHR 0x22] @ concat (map json_escape x) @ [CHR 0x22]"

fun json_members :: "(string \<times> string option) list \<Rightarrow> string list" where
  "json_members [] = []"
| "json_members ((k, None) # ps) = json_members ps"
| "json_members ((k, Some v) # ps) =
     (''  '' @ JSON_quote k @ '': '' @ JSON_quote v) # json_members ps"

definition JSON_stringify :: "ScrapingConfig \<Rightarrow> string" where
  "JSON_stringify config =
     (case json_members ((''platform'', Some (platform config)) # props config) of
        [] \<Rightarrow> ''{}''
      | m # ms \<Rightarrow> ''{'' @ [CHR 0x0A] @ join ('','' @ [CHR 0x0A]) (m # ms) @ [CHR 0x0A] @ ''}'')"

text \<open>The markup of the loading state, with the template's line breaks and indentation.\<close>

definition loading_html :: "string \<Rightarrow> string" where
  \<open>loading_html platformsList =
       ''\<newline>        <div class="text-center">'' @
       ''\<newline>          <div class="spinner-border text-primary" role="status">'' @
       ''\<newline>            <span class="visually-hidden">Loading...</span>'' @
       ''\<newline>          </div>'' @
       ''\<newline>          <p class="mt-3">Scraping '' @ platformsList @
       ''...</p>'' @
       ''\<newline>        </div>'' @
       ''\<newline>      ''\<close>
text \<open>
  One pass of the \<^verbatim>\<open>forEach\<close> in the timer's callback: what it adds to
  \<^verbatim>\<open>resultsHTML\<close> for the config at position \<open>index\<close>.
\<close>

definition result_block :: "nat \<Rightarrow> ScrapingConfig \<Rightarrow> string" where
  \<open>result_block index config =
       ''\<newline>              <div class="mb-4 '' @ (if index > 0 then ''border-top pt-3'' else '''') @
       ''">'' @
       ''\<newline>                <h6 class="text-primary">'' @ capitalize (platform config) @
       ''</h6>'' @
       ''\<newline>                <p class="text-success"><strong>Scraping completed!</strong></p>'' @
       ''\<newline>                <pre class="bg-light p-3 rounded small">'' @ JSON_stringify config @
       ''</pre>'' @
       ''\<newline>              </div>'' @
       ''\<newline>            ''\<close>

fun result_blocks :: "nat \<Rightarrow> ScrapingConfig list \<Rightarrow> string" where
  "result_blocks index [] = []"
| "result_blocks index (config # configs) =
     result_block index config @ result_blocks (Suc index) configs"

definition results_html :: "ScrapingConfig list \<Rightarrow> string" where
  \<open>results_html configs =
     ''<h5 class="card-title">Scraping Results</h5>''
     @ result_blocks 0 configs
     @ ''<p class="text-muted small mt-3">Scraping functionality to be implemented</p>''\<close>

text \<open>
  \<^verbatim>\<open>startScraping\<close> up to the call of \<^verbatim>\<open>setTimeout\<close>, which only records
  the callback.
\<close>

definition startScraping ::
    "AppController \<Rightarrow> ScrapingConfig list \<Rightarrow> effect list \<times> AppController" where
  "startScraping s configs =
     (case resultsDiv s of
        None \<Rightarrow> ([], s)
      | Some d \<Rightarrow>
          (case resultsContent s of
             None \<Rightarrow> ([], s)
           | Some c \<Rightarrow>
               (let platformsList = join '', '' (map platform configs) in
                ([ScrollIntoView, SetTimeout 2000],
                 s\<lparr>resultsDiv := Some ''block'',
                   resultsContent := Some (loading_html platformsList),
                   timers := timers s @ [(2000, configs)]\<rparr>))))"

text \<open>The arrow function given to \<^verbatim>\<open>setTimeout\<close>, run with the configs it captured.\<close>

definition timeout_callback :: "AppController \<Rightarrow> ScrapingConfig list \<Rightarrow> AppController" where
  "timeout_callback s configs =
     (case resultsContent s of
        None \<Rightarrow> s
      | Some c \<Rightarrow> s\<lparr>resultsContent := Some (results_html configs)\<rparr>)"

text \<open>
  The oldest pending timer expires: it leaves the list and its callback runs. All timers
  have the same delay, so they expire in the order they were set.
\<close>

definition timer_expires :: "AppController \<Rightarrow> AppController" where
  "timer_expires s =
     (case timers s of
        [] \<Rightarrow> s
      | (delay, configs) # rest \<Rightarrow> timeout_callback (s\<lparr>timers := rest\<rparr>) configs)"

section \<open>Submitting the form\<close>

definition handleSubmit :: "AppController \<Rightarrow> effect list \<times> AppController" where
  "handleSubmit s =
     (let selectedPlatforms = getSelectedPlatforms s in
      if length selectedPlatforms = 0 then
        ([PreventDefault, Alert ''Please select at least one platform''], s)
      else
        (let configs = getAllPlatformConfigs s selectedPlatforms in
         if length configs = 0 then
           ([PreventDefault,
             Alert ''Please fill in all required fields for selected platforms''], s)
         else
           (let (effects, s') = startScraping s configs in (PreventDefault # effects, s'))))"

section \<open>Reading JSON back\<close>

text \<open>
  What \<^verbatim>\<open>JSON.parse\<close> reads from the text of an object whose values are strings,
  after the JSON grammar (ECMA-404): white space, string literals with their escapes,
  members separated by commas. It is not part of the controller; it says what the text
  made by \<^verbatim>\<open>JSON.stringify\<close> means. The result is the list of the members, each a
  key with its string, in the order of the text; \<open>None\<close> where the text is no such
  object. Characters are single bytes, so an escape \<^verbatim>\<open>\uXXXX\<close> above
  \<^verbatim>\<open>00ff\<close> is not read.
\<close>

definition is_ws :: "char \<Rightarrow> bool" where
  "is_ws c = (let n = (of_char c :: nat) in n = 32 \<or> n = 9 \<or> n = 10 \<or> n = 13)"

definition hex_value :: "char \<Rightarrow> nat option" where
  "hex_value c =
     (let n = (of_char c :: nat) in
      if 48 \<le> n \<and> n \<le> 57 then Some (n - 48)
      else if 97 \<le> n \<and> n \<le> 102 then Some (n - 87)
      else if 65 \<le> n \<and> n \<le> 70 then Some (n - 55)
      else None)"

definition hex4 :: "char \<Rightarrow> char \<Rightarrow> char \<Rightarrow> char \<Rightarrow> char option" where
  "hex4 a b c d =
     (case (hex_value a, hex_value b, hex_value c, hex_value d) of
        (Some h3, Some h2, Some h1, Some h0) \<Rightarrow>
          (let n = ((h3 * 16 + h2) * 16 + h1) * 16 + h0 in
           if n < 256 then Some (char_of n) else None)
      | _ \<Rightarrow> None)"

text \<open>The character a two-character escape stands for: the one after the backslash.\<close>

definition escaped :: "char \<Rightarrow> char option" where
  "escaped e =
     (let n = (of_char e :: nat) in
      if n = 34 then Some (CHR 0x22)
      else if n = 92 then Some (CHR 0x5C)
      else if n = 47 then Some (CHR 0x2F)
      else if n = 98 then Some (CHR 0x08)
      else if n = 102 then Some (CHR 0x0C)
      else if n = 110 then Some (CHR 0x0A)
      else if n = 114 then Some (CHR 0x0D)
      else if n = 116 then Some (CHR 0x09)
      else None)"

text \<open>
  The characters of a string literal after its opening quote, up to the closing quote:
  the string they denote and the text that follows the literal.
\<close>

fun JSON_parse_chars :: "string \<Rightarrow> (string \<times> string) option" where
  "JSON_parse_chars [] = None"
| "JSON_parse_chars (c # cs) =
     (let n = (of_char c :: nat) in
      if n = 34 then Some ([], cs)
      else if n = 92 then
        (case cs of
           [] \<Rightarrow> None
         | e # cs' \<Rightarrow>
             if of_char e = (117 :: nat) then
               (case cs' of
                  h3 # h2 # h1 # h0 # rest \<Rightarrow>
                    (case hex4 h3 h2 h1 h0 of
                       None \<Rightarrow> None
                     | Some x \<Rightarrow>
                         (case JSON_parse_chars rest of
                            None \<Rightarrow> None
                          | Some (xs, rest') \<Rightarrow> Some (x # xs, rest')))
                | _ \<Rightarrow> None)
             else
               (case escaped e of
                  None \<Rightarrow> None
                | Some x \<Rightarrow>
                    (case JSON_parse_chars cs' of
                       None \<Rightarrow> None
                     | Some (xs, rest') \<Rightarrow> Some (x # xs, rest'))))
      else if n < 32 then None
      else (case JSON_parse_chars cs of
              None \<Rightarrow> None
            | Some (xs, rest') \<Rightarrow> Some (c # xs, rest')))"

definition JSON_parse_string :: "string \<Rightarrow> (string \<times> string) option" where
  "JSON_parse_string xs =
     (case xs of
        [] \<Rightarrow> None
      | c # cs \<Rightarrow> if of_char c = (34 :: nat) then JSON_parse_chars cs else None)"

text \<open>A member: a string, a colon, a string.\<close>

definition JSON_parse_member :: "string \<Rightarrow> ((string \<times> string) \<times> string) option" where
  "JSON_parse_member xs =
     (case JSON_parse_string xs of
        None \<Rightarrow> None
      | Some (k, r1) \<Rightarrow>
          (case dropWhile is_ws r1 of
             [] \<Rightarrow> None
           | c # r2 \<Rightarrow>
               if of_char c = (58 :: nat) then
                 (case JSON_parse_string (dropWhile is_ws r2) of
                    None \<Rightarrow> None
                  | Some (v, r3) \<Rightarrow> Some ((k, v), r3))
               else None))"

text \<open>
  The members of an object from the first one on, up to the closing brace, after which
  only white space may follow. Every member read leaves a shorter text, so the function
  is total.
\<close>

function JSON_parse_members :: "string \<Rightarrow> (string \<times> string) list option" where
  "JSON_parse_members xs =
     (case JSON_parse_member xs of
        None \<Rightarrow> None
      | Some (m, r) \<Rightarrow>
          (case dropWhile is_ws r of
             [] \<Rightarrow> None
           | c # r' \<Rightarrow>
               if of_char c = (44 :: nat) then
                 (case JSON_parse_members (dropWhile is_ws r') of
                    None \<Rightarrow> None
                  | Some ms \<Rightarrow> Some (m # ms))
               else if of_char c = (125 :: nat) \<and> dropWhile is_ws r' = [] then Some [m]
               else None))"
  by pat_completeness auto
termination
proof -
  have chars: "length rest < length cs" if "JSON_parse_chars cs = Some (x, rest)" for cs x rest
    using that
    by (induction cs arbitrary: x rest rule: JSON_parse_chars.induct)
      (auto simp: Let_def split: if_splits list.splits option.splits, fastforce+)
  have str: "length rest < length xs" if "JSON_parse_string xs = Some (x, rest)" for xs x rest
    using that
    by (auto simp: JSON_parse_string_def split: list.splits if_splits dest: chars)
  have ws: "length (dropWhile is_ws xs) \<le> length xs" for xs
    by (induction xs) auto
  have member: "length rest < length xs" if "JSON_parse_member xs = Some (m, rest)" for xs m rest
  proof -
    from that obtain k r1 c r2 v where
      a: "JSON_parse_string xs = Some (k, r1)" and b: "dropWhile is_ws r1 = c # r2"
      and d: "JSON_parse_string (dropWhile is_ws r2) = Some (v, rest)"
      by (auto simp: JSON_parse_member_def split: option.splits list.splits if_splits)
    have "length rest < length (dropWhile is_ws r2)"
      using d by (rule str)
    also have "\<dots> \<le> length r2" by (rule ws)
    also have "\<dots> < length (dropWhile is_ws r1)" using b by simp
    also have "\<dots> \<le> length r1" by (rule ws)
    also have "\<dots> < length xs" using a by (rule str)
    finally show ?thesis .
  qed
  show ?thesis
  proof (relation "measure length")
    show "wf (measure length)" by simp
  next
    fix xs :: string and x2 m r c r'
    assume a: "JSON_parse_member xs = Some x2" "(m, r) = x2" "dropWhile is_ws r = c # r'"
    then have "length r < length xs"
      using member[of xs m r] by simp
    moreover have "length (dropWhile is_ws r') \<le> length r'" by (rule ws)
    moreover have "length r' < length (dropWhile is_ws r)" using a by simp
    moreover have "length (dropWhile is_ws r) \<le> length r" by (rule ws)
    ultimately show "(dropWhile is_ws r', xs) \<in> measure length" by simp
  qed
qed

definition JSON_parse :: "string \<Rightarrow> (string \<times> string) list option" where
  "JSON_parse xs =
     (case dropWhile is_ws xs of
        [] \<Rightarrow> None
      | c # r \<Rightarrow>
          if of_char c = (123 :: nat) then
            (case dropWhile is_ws r of
               [] \<Rightarrow> None
             | d # r' \<Rightarrow>
                 if of_char d = (125 :: nat) then (if dropWhile is_ws r' = [] then Some [] else None)
                 else JSON_parse_members (d # r'))
          else None)"

text \<open>
  The members a configuration has for JSON: the platform, then the further properties
  that hold a string, in their order. A property holding \<^verbatim>\<open>undefined\<close> is none.
\<close>

fun defined :: "(string \<times> string option) list \<Rightarrow> (string \<times> string) list" where
  "defined [] = []"
| "defined ((k, None) # ps) = defined ps"
| "defined ((k, Some v) # ps) = (k, v) # defined ps"

definition members_of :: "ScrapingConfig \<Rightarrow> (string \<times> string) list" where
  "members_of config = (''platform'', platform config) # defined (props config)"

definition member_text :: "string \<times> string \<Rightarrow> string" where
  "member_text m = JSON_quote (fst m) @ '': '' @ JSON_quote (snd m)"

section \<open>Notions used in the statements\<close>

text \<open>
  An id of the form \<^verbatim>\<open>config-...\<close>, the ids \<^verbatim>\<open>loadPlatformConfig\<close> gives
  to the elements it creates; a forest none of whose elements has such an id; an answer
  of the environment whose markup has none.
\<close>

definition is_config_id :: "string \<Rightarrow> bool" where
  "is_config_id i = (take 7 i = ''config-'')"

definition no_config_ids :: "node list \<Rightarrow> bool" where
  "no_config_ids f = (\<forall>l \<in> set (labels f). \<not> is_config_id (fst l))"

definition answer_clean :: "fetch_outcome \<Rightarrow> bool" where
  "answer_clean a = (case a of ResponseOk html \<Rightarrow> no_config_ids html | _ \<Rightarrow> True)"

text \<open>
  The \<^verbatim>\<open>config-...\<close> ids of the children of the container, and the condition the
  toggle handlers keep: such ids occur only there, once each, and are exactly the ids of
  the loaded platforms.
\<close>

definition tops :: "node list \<Rightarrow> string list" where
  "tops cs = filter is_config_id (map node_id cs)"

definition toggle_inv :: "AppController \<Rightarrow> bool" where
  "toggle_inv s =
     (no_config_ids (page_before s) \<and> no_config_ids (page_after s) \<and>
      (case configContainer s of
         None \<Rightarrow> loadedConfigs s = {}
       | Some cs \<Rightarrow>
           (\<forall>c \<in> set cs. no_config_ids (node_children c)) \<and> distinct (tops cs) \<and>
           set (tops cs) = config_id ` loadedConfigs s))"

text \<open>
  The state after one change of a checkbox whose answer comes at once: the checkbox has
  its new \<^verbatim>\<open>checked\<close>, and the handler has run from beginning to end.
\<close>

definition toggle_once :: "AppController \<Rightarrow> nat \<Rightarrow> bool \<Rightarrow> fetch_outcome \<Rightarrow> AppController" where
  "toggle_once s k checked answer =
     (if k < length (platformCheckboxes s) then
        (let val = fst (platformCheckboxes s ! k)
         in snd (handlePlatformToggle
                   (s\<lparr>platformCheckboxes := (platformCheckboxes s)[k := (val, checked)]\<rparr>)
                   (val, checked) answer))
      else s)"

text \<open>The answers on which \<^verbatim>\<open>loadPlatformConfig\<close> takes an error path.\<close>

definition fetch_failed :: "fetch_outcome \<Rightarrow> bool" where
  "fetch_failed a = (case a of ResponseOk html \<Rightarrow> False | _ \<Rightarrow> True)"

text \<open>
  The four platforms the form knows, each with the id of its required field, and what it
  means for a platform's required field to be missing on the page: the field is empty or
  is not there.
\<close>

definition required_field :: "string \<Rightarrow> string option" where
  "required_field plat =
     (if plat = ''twitter'' then Some ''twitter-query''
      else if plat = ''instagram'' then Some ''instagram-username''
      else if plat = ''facebook'' then Some ''facebook-page''
      else if plat = ''reddit'' then Some ''reddit-subreddit''
      else None)"

definition missing_required :: "AppController \<Rightarrow> string \<Rightarrow> bool" where
  "missing_required s plat =
     (case required_field plat of None \<Rightarrow> False | Some i \<Rightarrow> falsy (value_of s i))"

section \<open>Example pages\<close>

text \<open>
  A freshly loaded page: four unchecked checkboxes, an empty container, a hidden results
  area, nothing loaded.
\<close>

definition fresh_page :: AppController where
  "fresh_page =
     \<lparr>page_before = [], configContainer = Some [], page_after = [],
      platformCheckboxes =
        [(''twitter'', False), (''instagram'', False), (''facebook'', False), (''reddit'', False)],
      resultsDiv = Some ''none'', resultsContent = Some [],
      loadedConfigs = {}, timers = []\<rparr>"

text \<open>The forms of two platforms as their fragments could define them.\<close>

definition twitter_form :: "node list" where
  "twitter_form = [Node ''twitter-query'' (Some ''isabelle'') [], Node ''twitter-count'' (Some []) []]"

definition instagram_form :: "node list" where
  "instagram_form = [Node ''instagram-username'' (Some []) [], Node ''instagram-type'' (Some ''posts'') []]"

text \<open>
  A page on which Twitter and Instagram are checked and their forms loaded; the Twitter
  query is filled in, the Instagram user name is empty.
\<close>

definition two_platforms :: AppController where
  "two_platforms =
     \<lparr>page_before = [],
      configContainer = Some [Node ''config-twitter'' None twitter_form,
                              Node ''config-instagram'' None instagram_form],
      page_after = [],
      platformCheckboxes =
        [(''twitter'', True), (''instagram'', True), (''facebook'', False), (''reddit'', False)],
      resultsDiv = Some ''none'', resultsContent = Some [],
      loadedConfigs = {''twitter'', ''instagram''}, timers = []\<rparr>"

text \<open>A page with the Reddit form loaded and filled in.\<close>

definition reddit_page :: AppController where
  "reddit_page =
     fresh_page\<lparr>configContainer :=
       Some [Node ''config-reddit'' None
               [Node ''reddit-subreddit'' (Some ''isabelle'') [],
                Node ''reddit-sort'' (Some ''hot'') [],
                Node ''reddit-limit'' (Some ''50'') []]],
       loadedConfigs := {''reddit''}\<rparr>"

text \<open>The configuration collected from the Twitter form above.\<close>

definition twitter_config :: ScrapingConfig where
  "twitter_config =
     \<lparr>platform = ''twitter'', props = [(''query'', Some ''isabelle''), (''count'', Some ''10'')]\<rparr>"

text \<open>
  The Twitter checkbox is checked, unchecked and checked again before any answer has
  come: on a fresh page the events up to the first answer, and the whole run.
\<close>

definition quick_clicks :: "event list" where
  "quick_clicks =
     [Change 0 True, Change 0 False, Change 0 True, Settled 0 (ResponseOk twitter_form)]"

definition quick_clicks_answered :: "event list" where
  "quick_clicks_answered = quick_clicks @ [Settled 0 (ResponseOk twitter_form)]"

text \<open>A fragment whose markup has an element with the id of another platform's form.\<close>

definition stray_form :: "node list" where
  "stray_form = [Node ''config-reddit'' None []]"

text \<open>The page of the two platforms without its results elements.\<close>

definition no_results_page :: AppController where
  "no_results_page = two_platforms\<lparr>resultsDiv := None, resultsContent := None\<rparr>"

text \<open>
  Two configurations to serialize: a query with quotes, a backslash, a line feed, the
  control character 1 and markup in it, and an Instagram configuration whose
  \<^verbatim>\<open>type\<close> is \<^verbatim>\<open>undefined\<close>.
\<close>

definition quoted_query :: string where
  "quoted_query =
     ''say '' @ [CHR 0x22] @ ''hi'' @ [CHR 0x22, CHR 0x5C, CHR 0x0A, CHR 0x01] @ ''<b>''"

definition quoted_config :: ScrapingConfig where
  "quoted_config =
     \<lparr>platform = ''twitter'', props = [(''query'', Some quoted_query), (''count'', Some ''10'')]\<rparr>"

definition instagram_config :: ScrapingConfig where
  "instagram_config =
     \<lparr>platform = ''instagram'', props = [(''username'', Some ''isabelle''), (''type'', None)]\<rparr>"

section \<open>Lemmas on forests\<close>

lemma find_by_id_SomeD: "find_by_id i f = Some n \<Longrightarrow> node_id n = i"
  by (induction i f rule: find_by_id.induct) (auto split: if_splits option.splits)

lemma find_by_id_None_iff: "find_by_id i f = None \<longleftrightarrow> i \<notin> fst ` set (labels f)"
  by (induction i f rule: find_by_id.induct) (auto split: if_splits option.splits simp: image_Un)

lemma find_by_id_append:
  "find_by_id i (f @ g) = (case find_by_id i f of Some n \<Rightarrow> Some n | None \<Rightarrow> find_by_id i g)"
  by (induction i f rule: find_by_id.induct) (auto split: option.splits)

lemma labels_append: "labels (f @ g) = labels f @ labels g"
  by (induction f rule: labels.induct) auto

lemma remove_first_None: "find_by_id i f = None \<Longrightarrow> remove_first i f = f"
  by (induction i f rule: remove_first.induct) (auto split: option.splits if_splits)

lemma remove_first_append:
  "remove_first i (f @ g) =
     (case find_by_id i f of Some n \<Rightarrow> remove_first i f @ g | None \<Rightarrow> f @ remove_first i g)"
  by (induction i f rule: remove_first.induct) (auto split: option.splits)

lemma remove_first_cut:
  "find_by_id i f = Some n \<Longrightarrow>
     \<exists>xs ys. labels f = xs @ labels [n] @ ys \<and> labels (remove_first i f) = xs @ ys
       \<and> i \<notin> fst ` set xs"
proof (induction i f rule: find_by_id.induct)
  case (1 i)
  then show ?case by simp
next
  case (2 i j v cs ns)
  show ?case
  proof (cases "j = i")
    case True
    with 2 have "n = Node j v cs" by simp
    with True show ?thesis by (intro exI[of _ "[]"] exI[of _ "labels ns"]) simp
  next
    case False
    show ?thesis
    proof (cases "find_by_id i cs")
      case (Some m)
      with False 2 have m: "m = n" by simp
      from 2(1)[OF False] Some m obtain xs ys where
        c: "labels cs = xs @ labels [n] @ ys" "labels (remove_first i cs) = xs @ ys" "i \<notin> fst ` set xs"
        by auto
      show ?thesis
        using False Some c
        by (intro exI[of _ "(j, v) # xs"] exI[of _ "ys @ labels ns"]) simp
    next
      case None
      with False 2 have f: "find_by_id i ns = Some n" by simp
      from 2(2)[OF False None f] obtain xs ys where
        c: "labels ns = xs @ labels [n] @ ys" "labels (remove_first i ns) = xs @ ys" "i \<notin> fst ` set xs"
        by auto
      have "i \<notin> fst ` set (labels cs)" using None by (simp add: find_by_id_None_iff)
      then show ?thesis
        using False None c
        by (intro exI[of _ "(j, v) # labels cs @ xs"] exI[of _ "ys"]) (auto simp: image_Un)
    qed
  qed
qed

lemma document_remove_node:
  "i \<noteq> ''platform-config'' \<Longrightarrow> document (remove_node i s) = remove_first i (document s)"
  by (auto simp: document_def remove_node_def remove_first_append remove_first_None
      split: option.splits)

section \<open>Lemmas on the handlers and the runs\<close>

lemma loadPlatformConfig_atomic:
  "loadPlatformConfig s plat answer =
     (case configContainer s of
        None \<Rightarrow> ([], s)
      | Some cs \<Rightarrow>
          if plat \<in> loadedConfigs s then ([], s)
          else (case answer of
                  FetchRejected e \<Rightarrow>
                    ([Fetch (view_url plat),
                      ConsoleError [''Error loading platform config:'', e]], s)
                | ResponseNotOk \<Rightarrow>
                    ([Fetch (view_url plat),
                      ConsoleError [''Configuration not available for '' @ plat]], s)
                | TextRejected e \<Rightarrow>
                    ([Fetch (view_url plat),
                      ConsoleError [''Error loading platform config:'', e]], s)
                | ResponseOk html \<Rightarrow>
                    ([Fetch (view_url plat)],
                     s\<lparr>configContainer := Some (cs @ [Node (config_id plat) None html]),
                       loadedConfigs := insert plat (loadedConfigs s)\<rparr>)))"
  by (cases answer)
    (auto simp: loadPlatformConfig_def loadPlatformConfig_begin_def loadPlatformConfig_resume_def
      split: option.splits)

lemma run_append:
  "run c (xs @ ys)
     = (case run c xs of
          (effects, c') \<Rightarrow> (case run c' ys of (effects', c'') \<Rightarrow> (effects @ effects', c'')))"
  by (induction xs arbitrary: c) (auto split: prod.splits)

lemma step_Settled_none: "step (s, []) (Settled j answer) = ([], s, [])"
  by (simp add: step_def)

lemma step_Settled_one:
  "step (s, [call]) (Settled 0 answer)
     = (fst (loadPlatformConfig_resume s call answer),
        snd (loadPlatformConfig_resume s call answer), [])"
  by (simp add: step_def split: prod.splits)

lemma run_atomic_step:
  "snd (run (s, []) [Change k checked, Settled 0 answer]) = (toggle_once s k checked answer, [])"
proof (cases "k < length (platformCheckboxes s)")
  case False
  then show ?thesis
    by (simp add: step_def toggle_once_def)
next
  case True
  define val where "val = fst (platformCheckboxes s ! k)"
  define s0 where "s0 = s\<lparr>platformCheckboxes := (platformCheckboxes s)[k := (val, checked)]\<rparr>"
  define s1 where "s1 = (case resultsDiv s0 of None \<Rightarrow> s0
    | Some d \<Rightarrow> s0\<lparr>resultsDiv := Some ''none''\<rparr>)"
  have t: "toggle_once s k checked answer = snd (handlePlatformToggle s0 (val, checked) answer)"
    using True by (simp add: toggle_once_def val_def s0_def Let_def)
  have h: "handlePlatformToggle s0 (val, checked) answer
      = (if checked then loadPlatformConfig s1 val answer
         else ([], removePlatformConfig s1 val))"
    by (simp add: handlePlatformToggle_def s1_def Let_def)
  have st: "step (s, []) (Change k checked)
      = (case handlePlatformToggle_begin s0 (val, checked) of
           (effects, s2, None) \<Rightarrow> (effects, s2, [])
         | (effects, s2, Some call) \<Rightarrow> (effects, s2, [call]))"
    using True by (simp add: step_def val_def s0_def Let_def)
  have b: "handlePlatformToggle_begin s0 (val, checked)
      = (if checked
         then (fst (loadPlatformConfig_begin s1 val), s1, snd (loadPlatformConfig_begin s1 val))
         else ([], removePlatformConfig s1 val, None))"
    by (simp add: handlePlatformToggle_begin_def s1_def Let_def split: prod.splits)
  have c: "step (s, []) (Change k checked)
      = (if checked
         then (case snd (loadPlatformConfig_begin s1 val) of
                 None \<Rightarrow> (fst (loadPlatformConfig_begin s1 val), s1, [])
               | Some call \<Rightarrow> (fst (loadPlatformConfig_begin s1 val), s1, [call]))
         else ([], removePlatformConfig s1 val, []))"
    unfolding st b by (simp split: option.splits)
  have r: "run (s, []) [Change k checked, Settled 0 answer]
      = (case step (s, []) (Change k checked) of
           (effects, c') \<Rightarrow>
             (case step c' (Settled 0 answer) of (effects', c'') \<Rightarrow> (effects @ effects', c'')))"
    by (simp split: prod.splits)
  show ?thesis
  proof (cases checked)
    case False
    then show ?thesis
      unfolding r c t h by (simp add: step_Settled_none)
  next
    case True
    show ?thesis
    proof (cases "snd (loadPlatformConfig_begin s1 val)")
      case None
      with True show ?thesis
        unfolding r c t h
        by (auto simp: step_Settled_none loadPlatformConfig_def split: prod.splits)
    next
      case (Some call)
      with True show ?thesis
        unfolding r c t h
        by (auto simp: step_Settled_one loadPlatformConfig_def split: prod.splits)
    qed
  qed
qed

lemma toggles_Nil: "toggles s [] = s"
  by (simp add: toggles_def atomic_events_def)

lemma toggles_Cons:
  "toggles s (((k, checked), answer) # evs) = toggles (toggle_once s k checked answer) evs"
proof -
  have r: "run (s, []) (atomic_events (((k, checked), answer) # evs))
      = (case run (s, []) [Change k checked, Settled 0 answer] of
           (effects, c') \<Rightarrow>
             (case run c' (atomic_events evs) of (effects', c'') \<Rightarrow> (effects @ effects', c'')))"
    using run_append[of "(s, [])" "[Change k checked, Settled 0 answer]" "atomic_events evs"]
    by (simp add: atomic_events_def del: run.simps)
  obtain effects where
    e: "run (s, []) [Change k checked, Settled 0 answer]
      = (effects, toggle_once s k checked answer, [])"
    using run_atomic_step[of s k checked answer]
    by (cases "run (s, []) [Change k checked, Settled 0 answer]") (auto simp del: run.simps)
  show ?thesis
    unfolding toggles_def r e by (simp split: prod.splits)
qed

section \<open>The condition kept by the toggle handlers\<close>

lemma is_config_id_config_id [simp]: "is_config_id (config_id p)"
  by (simp add: is_config_id_def config_id_def)

lemma config_id_inj [simp]: "config_id p = config_id q \<longleftrightarrow> p = q"
  by (simp add: config_id_def)

lemma config_id_not_container [simp]: "config_id p \<noteq> ''platform-config''"
  by (simp add: config_id_def)

lemma config_id_not_empty [simp]: "config_id p \<noteq> []"
  by (simp add: config_id_def)

lemma container_not_config_id [simp]: "''platform-config'' \<noteq> config_id p"
  by (simp add: config_id_def)

lemma no_config_ids_find:
  "no_config_ids f \<Longrightarrow> is_config_id i \<Longrightarrow> find_by_id i f = None"
  by (auto simp: no_config_ids_def find_by_id_None_iff)

lemma no_config_ids_append [simp]:
  "no_config_ids (f @ g) \<longleftrightarrow> no_config_ids f \<and> no_config_ids g"
  by (auto simp: no_config_ids_def labels_append)

lemma no_config_ids_Cons [simp]:
  "no_config_ids (Node j v cs # ns) \<longleftrightarrow> \<not> is_config_id j \<and> no_config_ids cs \<and> no_config_ids ns"
  by (auto simp: no_config_ids_def)

lemma no_config_ids_Nil [simp]: "no_config_ids []"
  by (simp add: no_config_ids_def)

lemma no_config_ids_children:
  "no_config_ids cs \<Longrightarrow> (\<forall>c \<in> set cs. no_config_ids (node_children c)) \<and> tops cs = []"
proof (induction cs)
  case Nil
  then show ?case by (simp add: tops_def)
next
  case (Cons c cs)
  then show ?case by (cases c) (auto simp: tops_def)
qed

lemma find_tops:
  assumes "\<forall>c \<in> set cs. no_config_ids (node_children c)" "is_config_id i"
  shows "find_by_id i cs = None \<longleftrightarrow> i \<notin> set (tops cs)"
  using assms
proof (induction cs)
  case Nil
  then show ?case by (simp add: tops_def)
next
  case (Cons c cs)
  obtain j v ks where c: "c = Node j v ks" by (cases c)
  with Cons.prems have "find_by_id i ks = None" by (simp add: no_config_ids_find)
  with Cons c show ?case by (auto simp: tops_def)
qed

lemma remove_tops:
  assumes "\<forall>c \<in> set cs. no_config_ids (node_children c)" "is_config_id i"
  shows "tops (remove_first i cs) = remove1 i (tops cs) \<and> set (remove_first i cs) \<subseteq> set cs"
  using assms
proof (induction cs)
  case Nil
  then show ?case by (simp add: tops_def)
next
  case (Cons c cs)
  obtain j v ks where c: "c = Node j v ks" by (cases c)
  with Cons.prems have "find_by_id i ks = None" by (simp add: no_config_ids_find)
  with Cons c show ?case by (auto simp: tops_def)
qed

lemma inv_load:
  assumes "toggle_inv s" "answer_clean a"
  shows "toggle_inv (snd (loadPlatformConfig s p a))"
proof (cases "configContainer s")
  case None
  with assms show ?thesis by (simp add: loadPlatformConfig_atomic)
next
  case (Some cs)
  show ?thesis
  proof (cases "p \<in> loadedConfigs s")
    case True
    with Some assms show ?thesis by (simp add: loadPlatformConfig_atomic)
  next
    case False
    with Some assms have "config_id p \<notin> set (tops cs)"
      by (auto simp: toggle_inv_def)
    with False Some assms show ?thesis
      by (cases a) (auto simp: loadPlatformConfig_atomic toggle_inv_def tops_def answer_clean_def)
  qed
qed

lemma inv_lookup:
  assumes "toggle_inv s"
  shows "getElementById s (config_id p) \<noteq> None \<longleftrightarrow> p \<in> loadedConfigs s"
proof (cases "configContainer s")
  case None
  with assms show ?thesis
    by (simp add: getElementById_def document_def toggle_inv_def find_by_id_append
        no_config_ids_find)
next
  case (Some cs)
  with assms have k: "\<forall>c \<in> set cs. no_config_ids (node_children c)"
    and t: "set (tops cs) = config_id ` loadedConfigs s"
    by (simp_all add: toggle_inv_def)
  have "find_by_id (config_id p) cs = None \<longleftrightarrow> p \<notin> loadedConfigs s"
    using find_tops[OF k, of "config_id p"] t by auto
  with Some assms show ?thesis
    by (auto simp: getElementById_def document_def toggle_inv_def find_by_id_append
        no_config_ids_find split: option.splits)
qed

lemma inv_remove:
  assumes "toggle_inv s"
  shows "toggle_inv (removePlatformConfig s p)"
proof (cases "p \<in> loadedConfigs s")
  case False
  with inv_lookup[OF assms, of p] assms show ?thesis
    by (simp add: removePlatformConfig_def)
next
  case True
  with assms obtain cs where Some: "configContainer s = Some cs"
    by (auto simp: toggle_inv_def split: option.splits)
  with assms have k: "\<forall>c \<in> set cs. no_config_ids (node_children c)"
    and d: "distinct (tops cs)"
    and t: "set (tops cs) = config_id ` loadedConfigs s"
    and b: "no_config_ids (page_before s)" and a: "no_config_ids (page_after s)"
    by (simp_all add: toggle_inv_def)
  from True inv_lookup[OF assms, of p] obtain n where g: "getElementById s (config_id p) = Some n"
    by auto
  have f: "find_by_id (config_id p) cs \<noteq> None"
    using find_tops[OF k, of "config_id p"] t True by auto
  have r: "tops (remove_first (config_id p) cs) = remove1 (config_id p) (tops cs)"
    "set (remove_first (config_id p) cs) \<subseteq> set cs"
    using remove_tops[OF k, of "config_id p"] by simp_all
  have s: "set (remove1 (config_id p) (tops cs)) = config_id ` (loadedConfigs s - {p})"
    using d t by auto
  show ?thesis
    using g Some f r s k d b a
    by (auto simp: removePlatformConfig_def remove_node_def toggle_inv_def no_config_ids_find
        split: option.splits)
qed

lemma inv_hide: "toggle_inv (s\<lparr>resultsDiv := d\<rparr>) = toggle_inv s"
  by (simp add: toggle_inv_def split: option.splits)

lemma inv_toggle:
  assumes "toggle_inv s" "answer_clean a"
  shows "toggle_inv (snd (handlePlatformToggle s c a))"
  using assms
  by (auto simp: handlePlatformToggle_def Let_def inv_hide inv_load inv_remove split: option.splits)

lemma inv_checkboxes: "toggle_inv (s\<lparr>platformCheckboxes := b\<rparr>) = toggle_inv s"
  by (simp add: toggle_inv_def split: option.splits)

lemma inv_toggle_once:
  assumes "toggle_inv s" "answer_clean a"
  shows "toggle_inv (toggle_once s k checked a)"
  using assms by (simp add: toggle_once_def Let_def inv_toggle inv_checkboxes)

lemma inv_toggles:
  "toggle_inv s \<Longrightarrow> \<forall>ev \<in> set evs. answer_clean (snd ev) \<Longrightarrow> toggle_inv (toggles s evs)"
proof (induction evs arbitrary: s)
  case Nil
  then show ?case by (simp add: toggles_Nil)
next
  case (Cons ev evs)
  obtain k checked a where ev: "ev = ((k, checked), a)" by (cases ev) auto
  with Cons.prems have "toggle_inv (toggle_once s k checked a)"
    by (simp add: inv_toggle_once)
  with Cons ev show ?case by (simp add: toggles_Cons)
qed

lemma inv_initial:
  assumes "loadedConfigs s = {}" "no_config_ids (document s)"
  shows "toggle_inv s"
proof (cases "configContainer s")
  case None
  with assms show ?thesis by (simp add: toggle_inv_def document_def)
next
  case (Some cs)
  with assms have n: "no_config_ids cs" by (simp add: document_def)
  from no_config_ids_children[OF n] Some assms show ?thesis
    by (simp add: toggle_inv_def document_def)
qed

section \<open>Lemmas on collecting and submitting\<close>

lemma getAllPlatformConfigs_append:
  "getAllPlatformConfigs s (ps @ qs) = getAllPlatformConfigs s ps @ getAllPlatformConfigs s qs"
  by (induction ps) (auto split: option.splits)

lemma result_blocks_enumerate:
  "result_blocks i configs = concat (map (\<lambda>(k, c). result_block k c) (enumerate i configs))"
  by (induction configs arbitrary: i) simp_all

lemma two_platforms_selected:
  "getSelectedPlatforms two_platforms = [''twitter'', ''instagram'']"
  by (simp add: getSelectedPlatforms_def two_platforms_def)

lemma two_platforms_values:
  "value_of two_platforms ''twitter-query'' = Some ''isabelle''"
  "value_of two_platforms ''twitter-count'' = Some []"
  "value_of two_platforms ''instagram-username'' = Some []"
  by (simp_all add: value_of_def getElementById_def document_def two_platforms_def
      twitter_form_def instagram_form_def)

lemma two_platforms_configs:
  "getAllPlatformConfigs two_platforms [''twitter'', ''instagram'']
     = [\<lparr>platform = ''twitter'', props = [(''query'', Some ''isabelle''), (''count'', Some ''10'')]\<rparr>]"
  by (simp add: getPlatformConfig_def two_platforms_values falsy_def or_default_def)

section \<open>Lemmas on JSON texts\<close>

lemma hex_value_digit: "k < 16 \<Longrightarrow> hex_value (hex_digit k) = Some k"
proof -
  assume "k < 16"
  then have "k = 0 \<or> k = 1 \<or> k = 2 \<or> k = 3 \<or> k = 4 \<or> k = 5 \<or> k = 6 \<or> k = 7
      \<or> k = 8 \<or> k = 9 \<or> k = 10 \<or> k = 11 \<or> k = 12 \<or> k = 13 \<or> k = 14 \<or> k = 15"
    by arith
  then show ?thesis
    by (auto simp: hex_digit_def hex_value_def)
qed

lemma hex4_escape:
  assumes "n < 32"
  shows "hex4 (CHR ''0'') (CHR ''0'') (hex_digit (n div 16)) (hex_digit n) = Some (char_of n)"
proof -
  have a: "hex_value (hex_digit (n div 16)) = Some (n div 16)"
    using assms by (intro hex_value_digit) simp
  have "hex_digit n = hex_digit (n mod 16)"
    by (simp add: hex_digit_def)
  then have b: "hex_value (hex_digit n) = Some (n mod 16)"
    using hex_value_digit[of "n mod 16"] by simp
  have z: "hex_value (CHR ''0'') = Some 0"
    by (simp add: hex_value_def)
  show ?thesis
    using assms by (simp add: hex4_def a b z)
qed

lemma char_of_codes:
  "char_of (8 :: nat) = CHR 0x08" "char_of (9 :: nat) = CHR 0x09"
  "char_of (10 :: nat) = CHR 0x0A" "char_of (12 :: nat) = CHR 0x0C"
  "char_of (13 :: nat) = CHR 0x0D" "char_of (34 :: nat) = CHR 0x22"
  "char_of (92 :: nat) = CHR 0x5C"
  by code_simp+

lemma JSON_parse_chars_escape:
  "JSON_parse_chars (json_escape c @ ys)
     = (case JSON_parse_chars ys of None \<Rightarrow> None | Some (xs, r) \<Rightarrow> Some (c # xs, r))"
proof -
  define n where "n = (of_char c :: nat)"
  have c: "c = char_of n" by (simp add: n_def)
  consider "n = 8" | "n = 9" | "n = 10" | "n = 12" | "n = 13" | "n = 34" | "n = 92"
    | "n < 32" "n \<notin> {8, 9, 10, 12, 13}" | "32 \<le> n" "n \<noteq> 34" "n \<noteq> 92"
    by force
  then show ?thesis
  proof cases
    case 8
    then have "n mod 256 = n" by simp
    with 8 hex4_escape[of n] show ?thesis
      by (simp add: json_escape_def c split: option.splits)
  next
    case 9
    then show ?thesis
      unfolding n_def by (simp add: json_escape_def split: option.splits)
  qed (simp_all add: json_escape_def escaped_def c char_of_codes split: option.splits)
qed

lemma JSON_parse_chars_quote:
  "JSON_parse_chars (concat (map json_escape x) @ CHR 0x22 # rest) = Some (x, rest)"
  by (induction x) (simp_all add: JSON_parse_chars_escape)

lemma JSON_parse_string_quote:
  "JSON_parse_string (JSON_quote x @ rest) = Some (x, rest)"
  by (simp add: JSON_parse_string_def JSON_quote_def JSON_parse_chars_quote)

lemma is_ws_simps [simp]:
  "is_ws (CHR '' '')" "is_ws (CHR 0x0A)" "\<not> is_ws (CHR 0x22)" "\<not> is_ws (CHR '':'')"
  "\<not> is_ws (CHR '','')" "\<not> is_ws (CHR ''{'')" "\<not> is_ws (CHR ''}'')"
  by (simp_all add: is_ws_def)

lemma JSON_quote_Cons: "JSON_quote x = CHR 0x22 # concat (map json_escape x) @ [CHR 0x22]"
  by (simp add: JSON_quote_def)

lemma member_text_Cons: "\<exists>r. member_text m = CHR 0x22 # r"
  by (simp add: member_text_def JSON_quote_Cons)

lemma JSON_parse_member_text:
  "JSON_parse_member (member_text m @ rest) = Some (m, rest)"
proof -
  have "JSON_parse_string (member_text m @ rest)
      = Some (fst m, '': '' @ JSON_quote (snd m) @ rest)"
    using JSON_parse_string_quote[of "fst m" "'': '' @ JSON_quote (snd m) @ rest"]
    by (simp add: member_text_def)
  moreover have "dropWhile is_ws ('' '' @ JSON_quote (snd m) @ rest) = JSON_quote (snd m) @ rest"
    by (simp add: JSON_quote_Cons)
  ultimately show ?thesis
    by (simp add: JSON_parse_member_def JSON_parse_string_quote)
qed

lemma JSON_parse_members_text:
  "JSON_parse_members
     (member_text m @ concat (map (\<lambda>m. '','' @ [CHR 0x0A] @ ''  '' @ member_text m) ms)
        @ [CHR 0x0A] @ ''}'')
   = Some (m # ms)"
proof (induction ms arbitrary: m)
  case Nil
  show ?case
    by (subst JSON_parse_members.simps) (simp add: JSON_parse_member_text)
next
  case (Cons m' ms)
  obtain r where r: "member_text m' = CHR 0x22 # r"
    using member_text_Cons by blast
  have d: "dropWhile is_ws ([CHR 0x0A] @ ''  '' @ member_text m' @ rest)
      = member_text m' @ rest" for rest
    by (simp add: r)
  show ?case
    using Cons.IH[of m'] d
    by (subst JSON_parse_members.simps) (simp add: JSON_parse_member_text)
qed

lemma json_members_defined:
  "json_members ps = map (\<lambda>m. ''  '' @ member_text m) (defined ps)"
  by (induction ps rule: json_members.induct) (simp_all add: member_text_def)

lemma join_member_lines:
  "join ('','' @ [CHR 0x0A]) (map (\<lambda>m. ''  '' @ member_text m) (m # ms))
   = ''  '' @ member_text m
     @ concat (map (\<lambda>m. '','' @ [CHR 0x0A] @ ''  '' @ member_text m) ms)"
  by (induction ms arbitrary: m) simp_all

lemma JSON_stringify_layout:
  "JSON_stringify config
   = ''{'' @ [CHR 0x0A]
     @ join ('','' @ [CHR 0x0A])
         (map (\<lambda>(k, v). ''  '' @ JSON_quote k @ '': '' @ JSON_quote v) (members_of config))
     @ [CHR 0x0A] @ ''}''"
  by (simp add: JSON_stringify_def json_members_defined members_of_def member_text_def
      case_prod_unfold)

lemma JSON_parse_stringify: "JSON_parse (JSON_stringify config) = Some (members_of config)"
proof -
  obtain r where r: "member_text (''platform'', platform config) = CHR 0x22 # r"
    using member_text_Cons by blast
  have "JSON_stringify config
      = ''{'' @ [CHR 0x0A] @ ''  '' @ member_text (''platform'', platform config)
        @ concat (map (\<lambda>m. '','' @ [CHR 0x0A] @ ''  '' @ member_text m) (defined (props config)))
        @ [CHR 0x0A] @ ''}''"
    unfolding JSON_stringify_def json_members.simps json_members_defined
    using join_member_lines[of "(''platform'', platform config)" "defined (props config)"]
    by (simp add: member_text_def)
  then show ?thesis
    using JSON_parse_members_text[of "(''platform'', platform config)" "defined (props config)"]
    by (simp add: JSON_parse_def members_of_def r)
qed

section \<open>Properties\<close>

text \<open>
  C8: the service is a pass-through to the use case. For every string \<open>m\<close>,
  \<^verbatim>\<open>ExampleService.processMessage(m)\<close> is exactly the value of
  \<^verbatim>\<open>ExampleUseCase.execute(m)\<close>, the text \<^verbatim>\<open>Processed: \<close> followed by \<open>m\<close>.
\<close>

theorem processMessage_pass_through:
  "ExampleService_processMessage m = ExampleUseCase_execute m
   \<and> ExampleUseCase_execute m = ''Processed: '' @ m"
  by (simp add: ExampleService_processMessage_def ExampleUseCase_execute_def)

text \<open>
  C1: the set is to keep \<^verbatim>\<open>loadPlatformConfig\<close> from fetching and injecting a
  platform's fragment twice. It does so for a call that begins when the platform is in
  the set. It does not for calls that overlap: the set is tested before the awaits and
  written after them. On a fresh page the Twitter checkbox is checked, unchecked and
  checked again before the first answer comes. Both calls pass the test, the view is
  fetched twice, the first answer injects \<^verbatim>\<open>config-twitter\<close> and enters Twitter
  into the set, and the second answer injects a second element with the same id while
  Twitter is in the set.
\<close>

theorem loadPlatformConfig_overlapping_calls:
  "loadedConfigs fresh_page = {}
   \<and> fst (run (fresh_page, []) quick_clicks)
     = [Fetch ''./src/presentation/views/twitter.html'',
        Fetch ''./src/presentation/views/twitter.html'']
   \<and> ''twitter'' \<in> loadedConfigs (fst (snd (run (fresh_page, []) quick_clicks)))
   \<and> configContainer (fst (snd (run (fresh_page, []) quick_clicks)))
     = Some [Node ''config-twitter'' None twitter_form]
   \<and> snd (snd (run (fresh_page, []) quick_clicks)) = [''twitter'']
   \<and> fst (run (fresh_page, []) quick_clicks_answered)
     = [Fetch ''./src/presentation/views/twitter.html'',
        Fetch ''./src/presentation/views/twitter.html'']
   \<and> configContainer (fst (snd (run (fresh_page, []) quick_clicks_answered)))
     = Some [Node ''config-twitter'' None twitter_form,
             Node ''config-twitter'' None twitter_form]
   \<and> loadedConfigs (fst (snd (run (fresh_page, []) quick_clicks_answered))) = {''twitter''}
   \<and> snd (snd (run (fresh_page, []) quick_clicks_answered)) = []"
proof -
  have a: "run (fresh_page, []) quick_clicks
      = ([Fetch ''./src/presentation/views/twitter.html'',
          Fetch ''./src/presentation/views/twitter.html''],
         fresh_page\<lparr>configContainer := Some [Node ''config-twitter'' None twitter_form],
           platformCheckboxes :=
             [(''twitter'', True), (''instagram'', False), (''facebook'', False),
              (''reddit'', False)],
           loadedConfigs := {''twitter''}\<rparr>,
         [''twitter''])"
    by (simp add: quick_clicks_def fresh_page_def step_def handlePlatformToggle_begin_def
        loadPlatformConfig_begin_def loadPlatformConfig_resume_def removePlatformConfig_def
        getElementById_def document_def config_id_def view_url_def Let_def)
  have b: "run (fresh_page, []) quick_clicks_answered
      = ([Fetch ''./src/presentation/views/twitter.html'',
          Fetch ''./src/presentation/views/twitter.html''],
         fresh_page\<lparr>configContainer :=
             Some [Node ''config-twitter'' None twitter_form,
                   Node ''config-twitter'' None twitter_form],
           platformCheckboxes :=
             [(''twitter'', True), (''instagram'', False), (''facebook'', False),
              (''reddit'', False)],
           loadedConfigs := {''twitter''}\<rparr>,
         [])"
    unfolding quick_clicks_answered_def run_append a
    by (simp add: fresh_page_def step_def loadPlatformConfig_resume_def config_id_def Let_def)
  show ?thesis
    unfolding a b by (simp add: fresh_page_def)
qed

text \<open>
  C4: \<^verbatim>\<open>removePlatformConfig\<close> looks up the element with id
  \<^verbatim>\<open>config-<platform>\<close>. When there is one, that element (the first with the id)
  leaves the document together with what is below it, every other element stays where it
  was, and the platform leaves \<open>loadedConfigs\<close>. When there is none, the state is
  unchanged: the document and the set are as before.
\<close>

theorem removePlatformConfig_removes:
  "(getElementById s (config_id plat) = Some n
      \<longrightarrow> node_id n = config_id plat
        \<and> document (removePlatformConfig s plat) = remove_first (config_id plat) (document s)
        \<and> (\<exists>xs ys. labels (document s) = xs @ labels [n] @ ys
              \<and> labels (document (removePlatformConfig s plat)) = xs @ ys
              \<and> config_id plat \<notin> fst ` set xs)
        \<and> loadedConfigs (removePlatformConfig s plat) = loadedConfigs s - {plat})
   \<and> (getElementById s (config_id plat) = None \<longrightarrow> removePlatformConfig s plat = s)"
proof (intro conjI impI)
  assume g: "getElementById s (config_id plat) = Some n"
  then have f: "find_by_id (config_id plat) (document s) = Some n"
    by (simp add: getElementById_def)
  have d: "document (removePlatformConfig s plat) = remove_first (config_id plat) (document s)"
    using g document_remove_node[of "config_id plat" s]
    by (simp add: removePlatformConfig_def document_def)
  show "node_id n = config_id plat"
    using f by (rule find_by_id_SomeD)
  show "document (removePlatformConfig s plat) = remove_first (config_id plat) (document s)"
    by (rule d)
  show "\<exists>xs ys. labels (document s) = xs @ labels [n] @ ys
      \<and> labels (document (removePlatformConfig s plat)) = xs @ ys
      \<and> config_id plat \<notin> fst ` set xs"
    using remove_first_cut[OF f] d by simp
  show "loadedConfigs (removePlatformConfig s plat) = loadedConfigs s - {plat}"
    using g by (simp add: removePlatformConfig_def remove_node_def split: option.splits)
next
  assume "getElementById s (config_id plat) = None"
  then show "removePlatformConfig s plat = s"
    by (simp add: removePlatformConfig_def)
qed

theorem removePlatformConfig_removes_witness:
  "getElementById two_platforms (config_id ''twitter'')
     = Some (Node ''config-twitter'' None twitter_form)
   \<and> document (removePlatformConfig two_platforms ''twitter'')
     = [Node ''platform-config'' None [Node ''config-instagram'' None instagram_form]]
   \<and> loadedConfigs (removePlatformConfig two_platforms ''twitter'') = {''instagram''}
   \<and> getElementById fresh_page (config_id ''twitter'') = None
   \<and> removePlatformConfig fresh_page ''twitter'' = fresh_page"
proof -
  have g: "getElementById two_platforms (config_id ''twitter'')
      = Some (Node ''config-twitter'' None twitter_form)"
    by (simp add: getElementById_def document_def two_platforms_def config_id_def)
  have h: "getElementById fresh_page (config_id ''twitter'') = None"
    by (simp add: getElementById_def document_def fresh_page_def config_id_def)
  have l: "loadedConfigs two_platforms - {''twitter''} = {''instagram''}"
    by (auto simp: two_platforms_def)
  have r: "remove_first (config_id ''twitter'') (document two_platforms)
      = [Node ''platform-config'' None [Node ''config-instagram'' None instagram_form]]"
    by (simp add: document_def two_platforms_def config_id_def)
  show ?thesis
    using removePlatformConfig_removes
      [of two_platforms "''twitter''" "Node ''config-twitter'' None twitter_form"]
      removePlatformConfig_removes [of fresh_page "''twitter''" "Node [] None []"]
      g h l r
    by simp
qed

text \<open>
  C5: when the fetch of a platform's fragment fails (the fetch or the reading of the
  text throws, or the response is not ok), \<^verbatim>\<open>loadPlatformConfig\<close> leaves the state
  as it is: the platform is not entered into \<open>loadedConfigs\<close> and nothing is appended
  to the container. It raises no alert, and where it did fetch (the container exists and
  the platform is not loaded) its only further effect is one \<^verbatim>\<open>console.error\<close>.
\<close>

theorem loadPlatformConfig_fetch_failure:
  assumes "fetch_failed answer"
  shows "snd (loadPlatformConfig s plat answer) = s
     \<and> (\<forall>m. Alert m \<notin> set (fst (loadPlatformConfig s plat answer)))
     \<and> (configContainer s \<noteq> None \<and> plat \<notin> loadedConfigs s
        \<longrightarrow> (\<exists>args. fst (loadPlatformConfig s plat answer)
              = [Fetch (view_url plat), ConsoleError args]))"
  using assms
  by (cases answer)
    (auto simp: fetch_failed_def loadPlatformConfig_atomic split: option.splits)

theorem loadPlatformConfig_fetch_failure_witness:
  "fetch_failed ResponseNotOk
   \<and> fetch_failed (FetchRejected ''TypeError: Failed to fetch'')
   \<and> configContainer fresh_page \<noteq> None
   \<and> ''reddit'' \<notin> loadedConfigs fresh_page
   \<and> loadPlatformConfig fresh_page ''reddit'' ResponseNotOk
       = ([Fetch ''./src/presentation/views/reddit.html'',
           ConsoleError [''Configuration not available for reddit'']], fresh_page)
   \<and> loadPlatformConfig fresh_page ''reddit'' (FetchRejected ''TypeError: Failed to fetch'')
       = ([Fetch ''./src/presentation/views/reddit.html'',
           ConsoleError [''Error loading platform config:'', ''TypeError: Failed to fetch'']],
          fresh_page)"
  using loadPlatformConfig_fetch_failure [of ResponseNotOk fresh_page "''reddit''"]
    loadPlatformConfig_fetch_failure
    [of "FetchRejected ''TypeError: Failed to fetch''" fresh_page "''reddit''"]
  by (simp add: fetch_failed_def fresh_page_def loadPlatformConfig_atomic view_url_def)

text \<open>
  C9, as the code has it: take each fetch as one step, start from a state in which
  \<open>loadedConfigs\<close> is empty and the page has no element with an id
  \<^verbatim>\<open>config-...\<close>, and let the markup of every fragment that arrives have no element
  with such an id. Then after any sequence of changes of the checkboxes, a platform is in
  \<open>loadedConfigs\<close> if and only if the document has an element with id
  \<^verbatim>\<open>config-<platform>\<close>.
\<close>

theorem toggles_loaded_iff_present:
  assumes "loadedConfigs s = {}"
    and "no_config_ids (document s)"
    and "\<forall>ev \<in> set evs. answer_clean (snd ev)"
  shows "plat \<in> loadedConfigs (toggles s evs)
     \<longleftrightarrow> getElementById (toggles s evs) (config_id plat) \<noteq> None"
  using inv_lookup[OF inv_toggles[OF inv_initial[OF assms(1,2)] assms(3)], of plat] by simp

theorem toggles_loaded_iff_present_witness:
  "loadedConfigs fresh_page = {}
   \<and> no_config_ids (document fresh_page)
   \<and> answer_clean (ResponseOk twitter_form) \<and> answer_clean ResponseNotOk
   \<and> answer_clean (ResponseOk instagram_form)
   \<and> ''instagram'' \<in> loadedConfigs (toggles fresh_page
        [((0, True), ResponseOk twitter_form),
         ((3, True), ResponseNotOk),
         ((1, True), ResponseOk instagram_form),
         ((0, False), ResponseNotOk)])
   \<and> getElementById (toggles fresh_page
        [((0, True), ResponseOk twitter_form),
         ((3, True), ResponseNotOk),
         ((1, True), ResponseOk instagram_form),
         ((0, False), ResponseNotOk)]) (config_id ''instagram'')
       = Some (Node ''config-instagram'' None instagram_form)
   \<and> ''twitter'' \<notin> loadedConfigs (toggles fresh_page
        [((0, True), ResponseOk twitter_form),
         ((3, True), ResponseNotOk),
         ((1, True), ResponseOk instagram_form),
         ((0, False), ResponseNotOk)])
   \<and> getElementById (toggles fresh_page
        [((0, True), ResponseOk twitter_form),
         ((3, True), ResponseNotOk),
         ((1, True), ResponseOk instagram_form),
         ((0, False), ResponseNotOk)]) (config_id ''twitter'') = None"
proof -
  let ?evs = "[((0, True), ResponseOk twitter_form),
         ((3, True), ResponseNotOk),
         ((1, True), ResponseOk instagram_form),
         ((0 :: nat, False), ResponseNotOk)]"
  have a: "loadedConfigs fresh_page = {}"
    by (simp add: fresh_page_def)
  have b: "no_config_ids (document fresh_page)"
    by (simp add: fresh_page_def document_def no_config_ids_def is_config_id_def)
  have c: "answer_clean (ResponseOk twitter_form)" "answer_clean ResponseNotOk"
    "answer_clean (ResponseOk instagram_form)"
    by (simp_all add: answer_clean_def no_config_ids_def is_config_id_def twitter_form_def
        instagram_form_def)
  then have d: "\<forall>ev \<in> set ?evs. answer_clean (snd ev)"
    by simp
  have e: "toggles fresh_page ?evs
      = fresh_page\<lparr>configContainer := Some [Node ''config-instagram'' None instagram_form],
          platformCheckboxes :=
            [(''twitter'', False), (''instagram'', True), (''facebook'', False),
             (''reddit'', True)],
          loadedConfigs := {''instagram''}\<rparr>"
    by (simp add: toggles_Cons toggles_Nil toggle_once_def fresh_page_def
        handlePlatformToggle_def loadPlatformConfig_atomic removePlatformConfig_def
        remove_node_def getElementById_def document_def config_id_def insert_commute Let_def
        numeral_3_eq_3)
  have f: "getElementById (toggles fresh_page ?evs) (config_id ''instagram'')
      = Some (Node ''config-instagram'' None instagram_form)"
    unfolding e by (simp add: getElementById_def document_def config_id_def fresh_page_def)
  show ?thesis
    using toggles_loaded_iff_present [OF a b d, of "''instagram''"]
      toggles_loaded_iff_present [OF a b d, of "''twitter''"] a b c f
    unfolding e by simp
qed

text \<open>
  C9 as stated, for any answers, fails: on the fresh page the Twitter checkbox is checked
  and the fragment that arrives has an element with id \<^verbatim>\<open>config-reddit\<close>. The
  document then has an element with that id, and Reddit is not in \<open>loadedConfigs\<close>.
\<close>

theorem toggles_stray_id_counterexample:
  "loadedConfigs fresh_page = {}
   \<and> no_config_ids (document fresh_page)
   \<and> loadedConfigs (toggles fresh_page [((0, True), ResponseOk stray_form)]) = {''twitter''}
   \<and> ''reddit'' \<notin> loadedConfigs (toggles fresh_page [((0, True), ResponseOk stray_form)])
   \<and> getElementById (toggles fresh_page [((0, True), ResponseOk stray_form)])
        (config_id ''reddit'')
     = Some (Node ''config-reddit'' None [])"
proof -
  have e: "toggles fresh_page [((0, True), ResponseOk stray_form)]
      = fresh_page\<lparr>configContainer := Some [Node ''config-twitter'' None stray_form],
          platformCheckboxes :=
            [(''twitter'', True), (''instagram'', False), (''facebook'', False),
             (''reddit'', False)],
          loadedConfigs := {''twitter''}\<rparr>"
    by (simp add: toggles_Cons toggles_Nil toggle_once_def fresh_page_def
        handlePlatformToggle_def loadPlatformConfig_atomic config_id_def Let_def)
  show ?thesis
    unfolding e
    by (simp add: fresh_page_def document_def no_config_ids_def is_config_id_def
        getElementById_def config_id_def stray_form_def)
qed

text \<open>
  C3: when no platform checkbox is checked, \<^verbatim>\<open>handleSubmit\<close> prevents the
  form's default action, shows the alert \<^verbatim>\<open>Please select at least one platform\<close>
  and does nothing else: no configuration is collected, \<^verbatim>\<open>startScraping\<close> is not
  called (no scrolling, no timer), and the whole state, with the results area and
  \<open>loadedConfigs\<close>, is as before.
\<close>

theorem handleSubmit_no_platform_selected:
  assumes "\<forall>c \<in> set (platformCheckboxes s). \<not> snd c"
  shows "getSelectedPlatforms s = []
     \<and> handleSubmit s = ([PreventDefault, Alert ''Please select at least one platform''], s)"
proof -
  from assms have "filter snd (platformCheckboxes s) = []"
    by (simp add: filter_empty_conv)
  then have "getSelectedPlatforms s = []"
    by (simp add: getSelectedPlatforms_def)
  then show ?thesis
    by (simp add: handleSubmit_def)
qed

theorem handleSubmit_no_platform_selected_witness:
  "list_all (\<lambda>c. \<not> snd c) (platformCheckboxes fresh_page)
   \<and> handleSubmit fresh_page
     = ([PreventDefault, Alert ''Please select at least one platform''], fresh_page)"
proof -
  have a: "\<forall>c \<in> set (platformCheckboxes fresh_page). \<not> snd c"
    by (simp add: fresh_page_def)
  from handleSubmit_no_platform_selected [OF a] a show ?thesis
    by (simp add: list_all_iff)
qed

text \<open>
  C2: a selected platform whose required field is missing is to block the submission,
  as the alert \<^verbatim>\<open>Please fill in all required fields for selected platforms\<close> says.
  \<^verbatim>\<open>handleSubmit\<close> raises that alert only when no selected platform gives a
  configuration. On the page \<open>two_platforms\<close> Instagram is selected and its user name is
  empty, yet the submission raises no alert and sets the timer of
  \<^verbatim>\<open>startScraping\<close> with the Twitter configuration alone.
\<close>

theorem handleSubmit_missing_field_not_blocked:
  "''instagram'' \<in> set (getSelectedPlatforms two_platforms)
   \<and> missing_required two_platforms ''instagram''
   \<and> fst (handleSubmit two_platforms) = [PreventDefault, ScrollIntoView, SetTimeout 2000]
   \<and> timers (snd (handleSubmit two_platforms))
     = [(2000, [\<lparr>platform = ''twitter'',
                  props = [(''query'', Some ''isabelle''), (''count'', Some ''10'')]\<rparr>])]"
proof -
  have "missing_required two_platforms ''instagram''"
    by (simp add: missing_required_def required_field_def two_platforms_values falsy_def)
  moreover have "handleSubmit two_platforms
      = (PreventDefault # fst (startScraping two_platforms
            [\<lparr>platform = ''twitter'',
              props = [(''query'', Some ''isabelle''), (''count'', Some ''10'')]\<rparr>]),
         snd (startScraping two_platforms
            [\<lparr>platform = ''twitter'',
              props = [(''query'', Some ''isabelle''), (''count'', Some ''10'')]\<rparr>]))"
    unfolding handleSubmit_def Let_def two_platforms_selected two_platforms_configs
    by (simp split: prod.splits)
  moreover have "resultsDiv two_platforms = Some ''none''" "resultsContent two_platforms = Some []"
    "timers two_platforms = []"
    by (simp_all add: two_platforms_def)
  ultimately show ?thesis
    by (simp add: two_platforms_selected startScraping_def)
qed

text \<open>
  C6: for each of the four platforms, when its required field holds a non-empty string,
  \<^verbatim>\<open>getPlatformConfig\<close> returns the object with the platform's name and exactly
  the platform's fields, in this order: \<^verbatim>\<open>query\<close> and \<^verbatim>\<open>count\<close> for
  Twitter (\<^verbatim>\<open>count\<close> is \<^verbatim>\<open>'10'\<close> when the field is empty or missing),
  \<^verbatim>\<open>username\<close> and \<^verbatim>\<open>type\<close> for Instagram, \<^verbatim>\<open>page\<close> and
  \<^verbatim>\<open>contentType\<close> for Facebook, \<^verbatim>\<open>subreddit\<close>, \<^verbatim>\<open>sort\<close> and
  \<^verbatim>\<open>limit\<close> for Reddit (\<^verbatim>\<open>limit\<close> is \<^verbatim>\<open>'25'\<close> when the field is
  empty or missing).
\<close>

theorem getPlatformConfig_fields:
  "(value_of s ''twitter-query'' = Some query \<and> query \<noteq> []
      \<longrightarrow> getPlatformConfig s ''twitter''
          = Some \<lparr>platform = ''twitter'',
                  props = [(''query'', Some query),
                           (''count'', Some (case value_of s ''twitter-count'' of
                                               None \<Rightarrow> ''10''
                                             | Some count \<Rightarrow> if count = [] then ''10'' else count))]\<rparr>)
   \<and> (value_of s ''instagram-username'' = Some username \<and> username \<noteq> []
      \<longrightarrow> getPlatformConfig s ''instagram''
          = Some \<lparr>platform = ''instagram'',
                  props = [(''username'', Some username),
                           (''type'', value_of s ''instagram-type'')]\<rparr>)
   \<and> (value_of s ''facebook-page'' = Some page \<and> page \<noteq> []
      \<longrightarrow> getPlatformConfig s ''facebook''
          = Some \<lparr>platform = ''facebook'',
                  props = [(''page'', Some page),
                           (''contentType'', value_of s ''facebook-content'')]\<rparr>)
   \<and> (value_of s ''reddit-subreddit'' = Some subreddit \<and> subreddit \<noteq> []
      \<longrightarrow> getPlatformConfig s ''reddit''
          = Some \<lparr>platform = ''reddit'',
                  props = [(''subreddit'', Some subreddit),
                           (''sort'', value_of s ''reddit-sort''),
                           (''limit'', Some (case value_of s ''reddit-limit'' of
                                               None \<Rightarrow> ''25''
                                             | Some limit \<Rightarrow> if limit = [] then ''25'' else limit))]\<rparr>)"
  by (simp add: getPlatformConfig_def falsy_def or_default_def split: option.splits)

theorem getPlatformConfig_fields_witness:
  "value_of two_platforms ''twitter-query'' = Some ''isabelle''
   \<and> value_of two_platforms ''twitter-count'' = Some []
   \<and> getPlatformConfig two_platforms ''twitter''
     = Some \<lparr>platform = ''twitter'',
             props = [(''query'', Some ''isabelle''), (''count'', Some ''10'')]\<rparr>
   \<and> value_of reddit_page ''reddit-subreddit'' = Some ''isabelle''
   \<and> getPlatformConfig reddit_page ''reddit''
     = Some \<lparr>platform = ''reddit'',
             props = [(''subreddit'', Some ''isabelle''), (''sort'', Some ''hot''),
                      (''limit'', Some ''50'')]\<rparr>"
proof -
  have r: "value_of reddit_page ''reddit-subreddit'' = Some ''isabelle''"
    "value_of reddit_page ''reddit-sort'' = Some ''hot''"
    "value_of reddit_page ''reddit-limit'' = Some ''50''"
    by (simp_all add: value_of_def getElementById_def document_def reddit_page_def
        fresh_page_def)
  show ?thesis
    using getPlatformConfig_fields
      [of two_platforms "''isabelle''" "''x''" "''x''" "''x''"]
      getPlatformConfig_fields [of reddit_page "''x''" "''x''" "''x''" "''isabelle''"]
      two_platforms_values r
    by simp
qed

text \<open>
  C10: for every platform name other than \<^verbatim>\<open>twitter\<close>, \<^verbatim>\<open>instagram\<close>,
  \<^verbatim>\<open>facebook\<close> and \<^verbatim>\<open>reddit\<close>, \<^verbatim>\<open>getPlatformConfig\<close> returns
  \<^verbatim>\<open>null\<close>, and \<^verbatim>\<open>getAllPlatformConfigs\<close> gives the same list with
  that name among the selected platforms as without it: the platform is dropped, with no
  configuration and no error.
\<close>

theorem getPlatformConfig_unsupported:
  assumes "plat \<notin> {''twitter'', ''instagram'', ''facebook'', ''reddit''}"
  shows "getPlatformConfig s plat = None
     \<and> getAllPlatformConfigs s (ps @ plat # qs) = getAllPlatformConfigs s (ps @ qs)"
proof -
  from assms have "getPlatformConfig s plat = None"
    by (simp add: getPlatformConfig_def)
  then show ?thesis
    by (simp add: getAllPlatformConfigs_append)
qed

theorem getPlatformConfig_unsupported_witness:
  "''tiktok'' \<notin> {''twitter'', ''instagram'', ''facebook'', ''reddit''}
   \<and> getPlatformConfig two_platforms ''tiktok'' = None
   \<and> getAllPlatformConfigs two_platforms [''tiktok'', ''twitter'', ''instagram'']
     = [\<lparr>platform = ''twitter'',
         props = [(''query'', Some ''isabelle''), (''count'', Some ''10'')]\<rparr>]"
proof -
  have a: "''tiktok'' \<notin> {''twitter'', ''instagram'', ''facebook'', ''reddit''}"
    by simp
  from getPlatformConfig_unsupported [OF a, of two_platforms "[]" "[''twitter'', ''instagram'']"]
    a two_platforms_configs
  show ?thesis
    by simp
qed

text \<open>
  C7, as the code has it: on a page where both results elements exist,
  \<^verbatim>\<open>startScraping\<close> first shows the loading state (the results element displayed as
  a block, the loading markup naming the platforms) and sets exactly one timer, of
  2000 ms, whose callback holds the configs; on a page where one of them is missing it
  does nothing. The callback, whenever it runs on a page with the results content
  element, makes that element's markup the heading, then one block per collected config
  in the order of the list, then the closing note; the block of a config holds
  \<^verbatim>\<open>JSON.stringify(config, null, 2)\<close> inside its \<^verbatim>\<open>pre\<close> element. That text
  has one line per member, indented by two spaces, with the strings in JSON quotes, and
  \<^verbatim>\<open>JSON.parse\<close> reads the members of the config back from it. The markup is
  what the code assigns to \<^verbatim>\<open>innerHTML\<close>: the JSON text stands in it as it is,
  with no escaping for HTML.
\<close>

theorem startScraping_loading_then_echo:
  \<open>(resultsDiv s = None \<or> resultsContent s = None \<longrightarrow> startScraping s configs = ([], s))
   \<and> (resultsDiv s = Some d \<and> resultsContent s = Some c
      \<longrightarrow> fst (startScraping s configs) = [ScrollIntoView, SetTimeout 2000]
        \<and> resultsDiv (snd (startScraping s configs)) = Some ''block''
        \<and> resultsContent (snd (startScraping s configs))
          = Some (''\<newline>        <div class="text-center">'' @
           ''\<newline>          <div class="spinner-border text-primary" role="status">'' @
           ''\<newline>            <span class="visually-hidden">Loading...</span>'' @
           ''\<newline>          </div>'' @
           ''\<newline>          <p class="mt-3">Scraping '' @ join '', '' (map platform configs) @
           ''...</p>'' @
           ''\<newline>        </div>'' @
           ''\<newline>      '')
        \<and> timers (snd (startScraping s configs)) = timers s @ [(2000, configs)])
   \<and> (timers t = (delay, configs) # rest
      \<longrightarrow> timer_expires t = timeout_callback (t\<lparr>timers := rest\<rparr>) configs)
   \<and> (resultsContent t = Some c'
      \<longrightarrow> resultsContent (timeout_callback t configs)
          = Some (''<h5 class="card-title">Scraping Results</h5>''
             @ concat (map (\<lambda>(index, config).
           ''\<newline>              <div class="mb-4 '' @ (if index > 0 then ''border-top pt-3'' else []) @
           ''">'' @
           ''\<newline>                <h6 class="text-primary">'' @ capitalize (platform config) @
           ''</h6>'' @
           ''\<newline>                <p class="text-success"><strong>Scraping completed!</strong></p>'' @
           ''\<newline>                <pre class="bg-light p-3 rounded small">'' @ JSON_stringify config @
           ''</pre>'' @
           ''\<newline>              </div>'' @
           ''\<newline>            '') (enumerate 0 configs))
             @ ''<p class="text-muted small mt-3">Scraping functionality to be implemented</p>''))
   \<and> JSON_stringify config
     = ''{'' @ [CHR 0x0A]
       @ join ('','' @ [CHR 0x0A])
           (map (\<lambda>(k, v). ''  '' @ JSON_quote k @ '': '' @ JSON_quote v) (members_of config))
       @ [CHR 0x0A] @ ''}''
   \<and> JSON_parse (JSON_stringify config) = Some (members_of config)
   \<and> JSON_parse_string (JSON_quote x) = Some (x, [])\<close>
proof -
  have blocks: \<open>result_blocks 0 configs
      = concat (map (\<lambda>(index, config).
           ''\<newline>              <div class="mb-4 '' @ (if index > 0 then ''border-top pt-3'' else []) @
           ''">'' @
           ''\<newline>                <h6 class="text-primary">'' @ capitalize (platform config) @
           ''</h6>'' @
           ''\<newline>                <p class="text-success"><strong>Scraping completed!</strong></p>'' @
           ''\<newline>                <pre class="bg-light p-3 rounded small">'' @ JSON_stringify config @
           ''</pre>'' @
           ''\<newline>              </div>'' @
           ''\<newline>            '') (enumerate 0 configs))\<close>
    by (simp add: result_blocks_enumerate result_block_def)
  have quote: \<open>JSON_parse_string (JSON_quote x) = Some (x, [])\<close>
    using JSON_parse_string_quote[of x \<open>[]\<close>] by simp
  have start: \<open>startScraping s configs = ([], s)\<close>
    if \<open>resultsDiv s = None \<or> resultsContent s = None\<close>
    using that by (auto simp: startScraping_def split: option.splits)
  have shown: \<open>fst (startScraping s configs) = [ScrollIntoView, SetTimeout 2000]
      \<and> resultsDiv (snd (startScraping s configs)) = Some ''block''
      \<and> resultsContent (snd (startScraping s configs))
        = Some (''\<newline>        <div class="text-center">'' @
           ''\<newline>          <div class="spinner-border text-primary" role="status">'' @
           ''\<newline>            <span class="visually-hidden">Loading...</span>'' @
           ''\<newline>          </div>'' @
           ''\<newline>          <p class="mt-3">Scraping '' @ join '', '' (map platform configs) @
           ''...</p>'' @
           ''\<newline>        </div>'' @
           ''\<newline>      '')
      \<and> timers (snd (startScraping s configs)) = timers s @ [(2000, configs)]\<close>
    if \<open>resultsDiv s = Some d \<and> resultsContent s = Some c\<close>
    using that by (simp add: startScraping_def loading_html_def)
  have expires: \<open>timer_expires t = timeout_callback (t\<lparr>timers := rest\<rparr>) configs\<close>
    if \<open>timers t = (delay, configs) # rest\<close>
    using that by (simp add: timer_expires_def)
  have echo: \<open>resultsContent (timeout_callback t configs)
      = Some (''<h5 class="card-title">Scraping Results</h5>''
         @ result_blocks 0 configs
         @ ''<p class="text-muted small mt-3">Scraping functionality to be implemented</p>'')\<close>
    if \<open>resultsContent t = Some c'\<close>
    using that by (simp add: timeout_callback_def results_html_def)
  show ?thesis
    using start shown expires echo quote JSON_stringify_layout[of config]
      JSON_parse_stringify[of config]
    unfolding blocks by blast
qed

theorem startScraping_loading_then_echo_witness:
  \<open>resultsDiv two_platforms = Some ''none''
   \<and> resultsContent two_platforms = Some []
   \<and> fst (startScraping two_platforms [quoted_config, instagram_config])
     = [ScrollIntoView, SetTimeout 2000]
   \<and> resultsContent (snd (startScraping two_platforms [quoted_config, instagram_config]))
     = Some (''\<newline>        <div class="text-center">'' @
         ''\<newline>          <div class="spinner-border text-primary" role="status">'' @
         ''\<newline>            <span class="visually-hidden">Loading...</span>'' @
         ''\<newline>          </div>'' @
         ''\<newline>          <p class="mt-3">Scraping twitter, instagram...</p>'' @
         ''\<newline>        </div>'' @
         ''\<newline>      '')
   \<and> timers (snd (startScraping two_platforms [quoted_config, instagram_config]))
     = [(2000, [quoted_config, instagram_config])]
   \<and> JSON_stringify quoted_config
     = ''{'' @
         ''\<newline>  "platform": "twitter",'' @
         ''\<newline>  "query": "say '' @
         [CHR 0x5C] @
         ''"hi'' @
         [CHR 0x5C] @
         ''"'' @
         [CHR 0x5C] @
         [CHR 0x5C] @
         [CHR 0x5C] @
         ''n'' @
         [CHR 0x5C] @
         ''u0001<b>",'' @
         ''\<newline>  "count": "10"'' @
         ''\<newline>}''
   \<and> JSON_parse (JSON_stringify quoted_config)
     = Some [(''platform'', ''twitter''), (''query'', quoted_query), (''count'', ''10'')]
   \<and> JSON_parse (JSON_stringify instagram_config)
     = Some [(''platform'', ''instagram''), (''username'', ''isabelle'')]
   \<and> resultsContent
        (timer_expires (snd (startScraping two_platforms [quoted_config, instagram_config])))
     = Some (''<h5 class="card-title">Scraping Results</h5>'' @
         ''\<newline>              <div class="mb-4 ">'' @
         ''\<newline>                <h6 class="text-primary">Twitter</h6>'' @
         ''\<newline>                <p class="text-success"><strong>Scraping completed!</strong></p>'' @
         ''\<newline>                <pre class="bg-light p-3 rounded small">{'' @
         ''\<newline>  "platform": "twitter",'' @
         ''\<newline>  "query": "say '' @
         [CHR 0x5C] @
         ''"hi'' @
         [CHR 0x5C] @
         ''"'' @
         [CHR 0x5C] @
         [CHR 0x5C] @
         [CHR 0x5C] @
         ''n'' @
         [CHR 0x5C] @
         ''u0001<b>",'' @
         ''\<newline>  "count": "10"'' @
         ''\<newline>}</pre>'' @
         ''\<newline>              </div>'' @
         ''\<newline>            '' @
         ''\<newline>              <div class="mb-4 border-top pt-3">'' @
         ''\<newline>                <h6 class="text-primary">Instagram</h6>'' @
         ''\<newline>                <p class="text-success"><strong>Scraping completed!</strong></p>'' @
         ''\<newline>                <pre class="bg-light p-3 rounded small">{'' @
         ''\<newline>  "platform": "instagram",'' @
         ''\<newline>  "username": "isabelle"'' @
         ''\<newline>}</pre>'' @
         ''\<newline>              </div>'' @
         ''\<newline>            <p class="text-muted small mt-3">Scraping functionality to be implemented</p>'')\<close>
proof -
  have r: \<open>resultsDiv two_platforms = Some ''none'' \<and> resultsContent two_platforms = Some []\<close>
    \<open>timers two_platforms = []\<close>
    by (simp_all add: two_platforms_def)
  have p: \<open>platform quoted_config = ''twitter''\<close> \<open>platform instagram_config = ''instagram''\<close>
    by (simp_all add: quoted_config_def instagram_config_def)
  have m: \<open>members_of quoted_config
      = [(''platform'', ''twitter''), (''query'', quoted_query), (''count'', ''10'')]\<close>
    \<open>members_of instagram_config = [(''platform'', ''instagram''), (''username'', ''isabelle'')]\<close>
    by (simp_all add: members_of_def quoted_config_def instagram_config_def)
  have c: \<open>capitalize ''twitter'' = ''Twitter''\<close> \<open>capitalize ''instagram'' = ''Instagram''\<close>
    by code_simp+
  have q: \<open>JSON_quote ''platform'' = [CHR 0x22] @ ''platform'' @ [CHR 0x22]\<close>
    \<open>JSON_quote ''twitter'' = [CHR 0x22] @ ''twitter'' @ [CHR 0x22]\<close>
    \<open>JSON_quote ''instagram'' = [CHR 0x22] @ ''instagram'' @ [CHR 0x22]\<close>
    \<open>JSON_quote ''username'' = [CHR 0x22] @ ''username'' @ [CHR 0x22]\<close>
    \<open>JSON_quote ''isabelle'' = [CHR 0x22] @ ''isabelle'' @ [CHR 0x22]\<close>
    \<open>JSON_quote ''query'' = [CHR 0x22] @ ''query'' @ [CHR 0x22]\<close>
    \<open>JSON_quote ''count'' = [CHR 0x22] @ ''count'' @ [CHR 0x22]\<close>
    \<open>JSON_quote ''10'' = [CHR 0x22] @ ''10'' @ [CHR 0x22]\<close>
    \<open>JSON_quote quoted_query
      = ''"say '' @
         [CHR 0x5C] @
         ''"hi'' @
         [CHR 0x5C] @
         ''"'' @
         [CHR 0x5C] @
         [CHR 0x5C] @
         [CHR 0x5C] @
         ''n'' @
         [CHR 0x5C] @
         ''u0001<b>"''\<close>
    by (simp_all add: JSON_quote_def json_escape_def quoted_query_def hex_digit_def)
  have started: \<open>fst (startScraping two_platforms [quoted_config, instagram_config])
        = [ScrollIntoView, SetTimeout 2000]
      \<and> resultsContent (snd (startScraping two_platforms [quoted_config, instagram_config]))
        = Some (''\<newline>        <div class="text-center">'' @
         ''\<newline>          <div class="spinner-border text-primary" role="status">'' @
         ''\<newline>            <span class="visually-hidden">Loading...</span>'' @
         ''\<newline>          </div>'' @
         ''\<newline>          <p class="mt-3">Scraping twitter, instagram...</p>'' @
         ''\<newline>        </div>'' @
         ''\<newline>      '')
      \<and> timers (snd (startScraping two_platforms [quoted_config, instagram_config]))
        = [(2000, [quoted_config, instagram_config])]\<close>
    using startScraping_loading_then_echo
      [of two_platforms \<open>[quoted_config, instagram_config]\<close> \<open>''none''\<close> \<open>[]\<close>] r
    by (simp add: p)
  have j: \<open>JSON_stringify cfg
      = ''{'' @ [CHR 0x0A]
        @ join ('','' @ [CHR 0x0A])
            (map (\<lambda>(k, v). ''  '' @ JSON_quote k @ '': '' @ JSON_quote v) (members_of cfg))
        @ [CHR 0x0A] @ ''}''\<close> for cfg
    using startScraping_loading_then_echo[where config = cfg] by blast
  have jq: \<open>JSON_stringify quoted_config
      = ''{'' @
         ''\<newline>  "platform": "twitter",'' @
         ''\<newline>  "query": "say '' @
         [CHR 0x5C] @
         ''"hi'' @
         [CHR 0x5C] @
         ''"'' @
         [CHR 0x5C] @
         [CHR 0x5C] @
         [CHR 0x5C] @
         ''n'' @
         [CHR 0x5C] @
         ''u0001<b>",'' @
         ''\<newline>  "count": "10"'' @
         ''\<newline>}''\<close>
    unfolding j m by (simp add: q)
  have ji: \<open>JSON_stringify instagram_config
      = ''{'' @
         ''\<newline>  "platform": "instagram",'' @
         ''\<newline>  "username": "isabelle"'' @
         ''\<newline>}''\<close>
    unfolding j m by (simp add: q)
  have parsed: \<open>JSON_parse (JSON_stringify cfg) = Some (members_of cfg)\<close> for cfg
    using startScraping_loading_then_echo[where config = cfg] by blast
  have cb: \<open>resultsContent
        (timeout_callback
          ((snd (startScraping two_platforms [quoted_config, instagram_config]))\<lparr>timers := []\<rparr>)
          [quoted_config, instagram_config])
      = Some (''<h5 class="card-title">Scraping Results</h5>'' @
         ''\<newline>              <div class="mb-4 ">'' @
         ''\<newline>                <h6 class="text-primary">Twitter</h6>'' @
         ''\<newline>                <p class="text-success"><strong>Scraping completed!</strong></p>'' @
         ''\<newline>                <pre class="bg-light p-3 rounded small">{'' @
         ''\<newline>  "platform": "twitter",'' @
         ''\<newline>  "query": "say '' @
         [CHR 0x5C] @
         ''"hi'' @
         [CHR 0x5C] @
         ''"'' @
         [CHR 0x5C] @
         [CHR 0x5C] @
         [CHR 0x5C] @
         ''n'' @
         [CHR 0x5C] @
         ''u0001<b>",'' @
         ''\<newline>  "count": "10"'' @
         ''\<newline>}</pre>'' @
         ''\<newline>              </div>'' @
         ''\<newline>            '' @
         ''\<newline>              <div class="mb-4 border-top pt-3">'' @
         ''\<newline>                <h6 class="text-primary">Instagram</h6>'' @
         ''\<newline>                <p class="text-success"><strong>Scraping completed!</strong></p>'' @
         ''\<newline>                <pre class="bg-light p-3 rounded small">{'' @
         ''\<newline>  "platform": "instagram",'' @
         ''\<newline>  "username": "isabelle"'' @
         ''\<newline>}</pre>'' @
         ''\<newline>              </div>'' @
         ''\<newline>            <p class="text-muted small mt-3">Scraping functionality to be implemented</p>'')\<close>
    using startScraping_loading_then_echo
      [where t = \<open>(snd (startScraping two_platforms [quoted_config, instagram_config]))
          \<lparr>timers := []\<rparr>\<close>
        and configs = \<open>[quoted_config, instagram_config]\<close>
        and c' = \<open>''\<newline>        <div class="text-center">'' @
         ''\<newline>          <div class="spinner-border text-primary" role="status">'' @
         ''\<newline>            <span class="visually-hidden">Loading...</span>'' @
         ''\<newline>          </div>'' @
         ''\<newline>          <p class="mt-3">Scraping twitter, instagram...</p>'' @
         ''\<newline>        </div>'' @
         ''\<newline>      ''\<close>]
      started
    by (simp add: enumerate_eq_zip p c jq ji)
  have ex: \<open>timer_expires (snd (startScraping two_platforms [quoted_config, instagram_config]))
      = timeout_callback
          ((snd (startScraping two_platforms [quoted_config, instagram_config]))\<lparr>timers := []\<rparr>)
          [quoted_config, instagram_config]\<close>
    using startScraping_loading_then_echo
      [where t = \<open>snd (startScraping two_platforms [quoted_config, instagram_config])\<close>
        and configs = \<open>[quoted_config, instagram_config]\<close> and delay = 2000
        and rest = \<open>[]\<close>]
      started
    by simp
  show ?thesis
    using r started jq parsed[of quoted_config] parsed[of instagram_config] cb
    unfolding ex m by simp
qed

text \<open>
  C7 as stated, for every page, fails: on the page without its results elements
  \<^verbatim>\<open>startScraping\<close> shows no loading state and sets no timer.
\<close>

theorem startScraping_without_results_counterexample:
  "resultsDiv no_results_page = None
   \<and> resultsContent no_results_page = None
   \<and> timers no_results_page = []
   \<and> startScraping no_results_page [twitter_config] = ([], no_results_page)"
  by (simp add: no_results_page_def two_platforms_def startScraping_def)

end
